theory Spec2Isabelle
  imports Main
begin

section \<open>Machine registry reader (machines-api.ts, getMachinesList)\<close>

text \<open>
  The TypeScript interface \<open>Machine\<close>. The three required fields are strings, the
  optional ones are \<open>None\<close> when the property is undefined.
\<close>

record Machine =
  key :: string
  address :: string
  label :: string
  user :: "string option"
  color :: "string option"
  state :: "string option"
  visible :: "bool option"
  avatar :: "string option"

text \<open>
  \<open>Partial<Machine>\<close>: one entry of the \<open>content\<close> or \<open>overlay\<close> table of the
  stored registry document. Every property may be missing. The fields carry the
  prefix \<open>p_\<close> because record fields are global names.
\<close>

record PartialMachine =
  p_key :: "string option"
  p_address :: "string option"
  p_label :: "string option"
  p_user :: "string option"
  p_color :: "string option"
  p_state :: "string option"
  p_visible :: "bool option"
  p_avatar :: "string option"

text \<open>
  A JavaScript object used as a table is an association list in the order in which
  \<open>Object.keys\<close> enumerates it; a lookup takes the first binding of a key.
  \<open>MachinesData\<close> is the interface of the parsed document; either table may be
  missing, which is what \<open>parsed.content || {}\<close> provides for.
\<close>

type_synonym 'a js_table = "(string \<times> 'a) list"

record MachinesData =
  content :: "PartialMachine js_table option"
  overlay :: "PartialMachine js_table option"

text \<open>
  What \<open>JSON.parse(data)\<close> does with the stored text: it throws a SyntaxError, or it
  returns \<open>null\<close> (on which \<open>parsed.content\<close> throws a TypeError), or it returns a
  document. A JSON number, string, boolean or array has no \<open>content\<close> and no
  \<open>overlay\<close> property and so behaves as the document with both tables missing.
  The parser itself is the JavaScript runtime's and is a parameter of the model.
\<close>

datatype parse_result = SyntaxError | JsonNull | JsonDoc MachinesData

text \<open>
  The part of the browser \<open>window\<close> that getMachinesList reads: the item stored
  under \<open>SESSION_KEY\<close> (\<open>None\<close> when \<open>getItem\<close> returns null) and the host name.
  The functions below take any extension of the record, which stands for the rest of
  the window.
\<close>

record Window =
  sessionStorage_item :: "string option"
  location_hostname :: string

text \<open>The runtime functions the reader calls: \<open>JSON.parse\<close> and \<open>String.localeCompare\<close>.\<close>

record Runtime =
  JSON_parse :: "string \<Rightarrow> parse_result"
  localeCompare :: "string \<Rightarrow> string \<Rightarrow> int"

text \<open>\<open>a || b\<close> on strings: the empty string is falsy.\<close>

definition or_else :: "string \<Rightarrow> string \<Rightarrow> string" where
  "or_else a b = (if a = [] then b else a)"

text \<open>The literal returned by each of the three fallback branches.\<close>

definition localhost_fallback :: "'a Window_scheme \<Rightarrow> Machine list" where
  "localhost_fallback w =
     [\<lparr> key = ''localhost'', address = ''localhost'',
        label = or_else (location_hostname w) ''localhost'',
        user = None, color = None, state = Some ''connected'',
        visible = Some True, avatar = None \<rparr>]"

text \<open>\<open>Object.keys(t)\<close> and \<open>t[host]\<close>.\<close>

definition Object_keys :: "'a js_table \<Rightarrow> string list" where
  "Object_keys t = map fst t"

definition table_get :: "'a js_table \<Rightarrow> string \<Rightarrow> 'a option" where
  "table_get t h = map_of t h"

text \<open>
  \<open>new Set([...])\<close>: the elements in order of first insertion, each once.
\<close>

fun Set_add_all :: "string list \<Rightarrow> string list \<Rightarrow> string list" where
  "Set_add_all seen [] = seen"
| "Set_add_all seen (x # xs) =
     Set_add_all (if x \<in> set seen then seen else seen @ [x]) xs"

definition new_Set :: "string list \<Rightarrow> string list" where
  "new_Set xs = Set_add_all [] xs"

text \<open>
  Object spread \<open>{ ...m, ...p }\<close>: every property present in \<open>p\<close> overrides the one
  of \<open>m\<close>; spreading \<open>undefined\<close> changes nothing.
\<close>

definition pick :: "'a option \<Rightarrow> 'a \<Rightarrow> 'a" where
  "pick v d = (case v of Some x \<Rightarrow> x | None \<Rightarrow> d)"

definition pick_opt :: "'a option \<Rightarrow> 'a option \<Rightarrow> 'a option" where
  "pick_opt v d = (case v of Some x \<Rightarrow> Some x | None \<Rightarrow> d)"

fun spread :: "Machine \<Rightarrow> PartialMachine option \<Rightarrow> Machine" where
  "spread m None = m"
| "spread m (Some p) =
     \<lparr> key = pick (p_key p) (key m),
       address = pick (p_address p) (address m),
       label = pick (p_label p) (label m),
       user = pick_opt (p_user p) (user m),
       color = pick_opt (p_color p) (color m),
       state = pick_opt (p_state p) (state m),
       visible = pick_opt (p_visible p) (visible m),
       avatar = pick_opt (p_avatar p) (avatar m) \<rparr>"

text \<open>The object literal built for one host in the loop body.\<close>

definition merged_machine ::
  "PartialMachine js_table \<Rightarrow> PartialMachine js_table \<Rightarrow> string \<Rightarrow> Machine" where
  "merged_machine c ov host =
     spread (spread
       \<lparr> key = host, address = host, label = host, user = None, color = None,
         state = None, visible = None, avatar = None \<rparr>
       (table_get c host)) (table_get ov host)"

text \<open>The default label given when \<open>!machine.label\<close> holds.\<close>

definition with_default_label :: "'a Window_scheme \<Rightarrow> string \<Rightarrow> Machine \<Rightarrow> Machine" where
  "with_default_label w host m =
     (if label m = [] then
        (if host = ''localhost'' \<or> host = ''localhost.localdomain''
         then m\<lparr> label := location_hostname w \<rparr>
         else m\<lparr> label := host \<rparr>)
      else m)"

text \<open>The \<open>for (const host of allHosts)\<close> loop; \<open>machines\<close> is the array pushed to.\<close>

fun collect_machines ::
  "'a Window_scheme \<Rightarrow> PartialMachine js_table \<Rightarrow> PartialMachine js_table \<Rightarrow>
   string list \<Rightarrow> Machine list \<Rightarrow> Machine list" where
  "collect_machines w c ov [] machines = machines"
| "collect_machines w c ov (host # hosts) machines =
     (let machine = merged_machine c ov host in
      if visible machine \<noteq> Some False
      then collect_machines w c ov hosts (machines @ [with_default_label w host machine])
      else collect_machines w c ov hosts machines)"

text \<open>
  \<open>Array.prototype.sort\<close> with a comparator. ECMAScript requires the sort to be stable;
  for a comparator that is a total preorder the result is the one stable sorted
  arrangement, which this insertion sort computes.
\<close>

fun sort_insert :: "('a \<Rightarrow> 'a \<Rightarrow> int) \<Rightarrow> 'a \<Rightarrow> 'a list \<Rightarrow> 'a list" where
  "sort_insert cmp x [] = [x]"
| "sort_insert cmp x (y # ys) =
     (if cmp x y \<le> 0 then x # y # ys else y # sort_insert cmp x ys)"

fun Array_sort :: "('a \<Rightarrow> 'a \<Rightarrow> int) \<Rightarrow> 'a list \<Rightarrow> 'a list" where
  "Array_sort cmp [] = []"
| "Array_sort cmp (x # xs) = sort_insert cmp x (Array_sort cmp xs)"

text \<open>The comparator \<open>(a, b) => a.label.localeCompare(b.label)\<close>.\<close>

definition by_label :: "Runtime \<Rightarrow> Machine \<Rightarrow> Machine \<Rightarrow> int" where
  "by_label rt a b = localeCompare rt (label a) (label b)"

text \<open>The visible machines of a parsed document, before the emptiness test and the sort.\<close>

definition visible_machines :: "'a Window_scheme \<Rightarrow> MachinesData \<Rightarrow> Machine list" where
  "visible_machines w parsed =
     (let c = pick (content parsed) [];
          ov = pick (overlay parsed) [];
          allHosts = new_Set (Object_keys c @ Object_keys ov)
      in collect_machines w c ov allHosts [])"

text \<open>
  getMachinesList. \<open>!data\<close> holds for a missing item and for the empty string. Both
  exceptions of the \<open>try\<close> block end in the \<open>catch\<close> branch.
\<close>

definition getMachinesList :: "Runtime \<Rightarrow> 'a Window_scheme \<Rightarrow> Machine list" where
  "getMachinesList rt w =
     (case sessionStorage_item w of
        None \<Rightarrow> localhost_fallback w
      | Some data \<Rightarrow>
          if data = [] then localhost_fallback w
          else (case JSON_parse rt data of
                  SyntaxError \<Rightarrow> localhost_fallback w
                | JsonNull \<Rightarrow> localhost_fallback w
                | JsonDoc parsed \<Rightarrow>
                    (let machines = visible_machines w parsed in
                     if length machines = 0 then localhost_fallback w
                     else Array_sort (by_label rt) machines)))"

section \<open>Asynchronous operations (machines-api.ts)\<close>

text \<open>
  A thrown or rejected value is an error object; \<open>message\<close> is \<open>None\<close> when the
  property is undefined. \<open>new Error(s)\<close> is \<open>Error (Some s)\<close>.
\<close>

datatype js_error = Error (message: "string option")

text \<open>
  The state of a promise when the remote side has delivered everything it is going to
  deliver: still pending (the \<open>await\<close> never returns), rejected, or resolved.
\<close>

datatype 'a promise = Pending | Rejected js_error | Resolved 'a

text \<open>
  The interface \<open>UpdateInfo\<close>. The field \<open>total\<close> is named \<open>total_updates\<close> here
  (the name \<open>total\<close> is taken in HOL); \<open>lastChecked\<close> is a timestamp.
\<close>

record UpdateInfo =
  total_updates :: int
  security :: int
  loading :: bool
  error :: "string option"
  lastChecked :: "nat option"

text \<open>
  The functions of the cockpit module and of the clock that the operations call:
  \<open>cockpit.gettext\<close>, \<open>cockpit.format\<close> and \<open>new Date()\<close>.
\<close>

record Env =
  gettext :: "string \<Rightarrow> string"
  format :: "string \<Rightarrow> string option list \<Rightarrow> string"
  now :: nat

text \<open>
  The signals of one PackageKit transaction, in the order in which the event loop
  delivers them once the method has been invoked. \<open>CallRejected\<close> is the rejection of
  the promise returned by the invoked method (\<open>GetUpdates\<close>, \<open>UpdatePackages\<close>,
  \<open>RefreshCache\<close>). The integer of \<open>Package\<close> is the info code, the one of
  \<open>Finished\<close> the exit code; percentages are the numbers the signal carries.
\<close>

datatype signal =
    Package int string
  | Percentage int
  | ItemProgress string int
  | Finished int
  | ErrorCode int string
  | CallRejected js_error

text \<open>
  What the remote PackageKit service does during one call: the outcome of
  \<open>CreateTransaction\<close>, the outcome of \<open>transaction.wait()\<close>, and the signals.
  A call reads the signals up to the first one that settles its promise; it has
  returned when the later ones arrive.
\<close>

record pk_remote =
  CreateTransaction :: "string list promise"
  proxy_wait :: "unit promise"
  signals :: "signal list"

text \<open>The members a call subscribes to on the D-Bus client.\<close>

datatype member = Package_m | Percentage_m | ItemProgress_m | Finished_m | ErrorCode_m

text \<open>\<open>options = host === "localhost" ? {} : { host }\<close>; \<open>None\<close> is the local bus.\<close>

definition dbus_options :: "string \<Rightarrow> string option" where
  "dbus_options host = (if host = ''localhost'' then None else Some host)"

text \<open>\<open>packageId.split(";")[0]\<close>.\<close>

definition package_name :: "string \<Rightarrow> string" where
  "package_name packageId = takeWhile (\<lambda>c. c \<noteq> CHR '';'') packageId"

text \<open>\<open>String.prototype.includes\<close>.\<close>

fun str_includes :: "string \<Rightarrow> string \<Rightarrow> bool" where
  "str_includes [] needle = (needle = [])"
| "str_includes (c # cs) needle =
     (take (length needle) (c # cs) = needle \<or> str_includes cs needle)"

text \<open>
  The opening lines that the three operations share: create the transaction, test the
  returned path, wait for the proxy. The result is the transaction path.
\<close>

definition open_transaction :: "Env \<Rightarrow> pk_remote \<Rightarrow> string promise" where
  "open_transaction env r =
     (case CreateTransaction r of
        Pending \<Rightarrow> Pending
      | Rejected e \<Rightarrow> Rejected e
      | Resolved transactionPath \<Rightarrow>
          (case transactionPath of
             [] \<Rightarrow> Rejected (Error (Some (gettext env ''Failed to create PackageKit transaction'')))
           | p # _ \<Rightarrow>
               if p = [] then
                 Rejected (Error (Some (gettext env ''Failed to create PackageKit transaction'')))
               else (case proxy_wait r of
                       Pending \<Rightarrow> Pending
                     | Rejected e \<Rightarrow> Rejected e
                     | Resolved _ \<Rightarrow> Resolved p)))"

subsection \<open>getUpdatesForHost\<close>

text \<open>
  The wait for completion in getUpdatesForHost. \<open>updates\<close> is the array the Package
  handler pushes to, \<open>subs\<close> the subscriptions registered and not yet removed. The
  promise settles at the first Finished, ErrorCode or CallRejected; the handlers of
  the first two remove their own subscription. Percentage and ItemProgress signals
  have no subscriber here.
\<close>

fun await_updates ::
  "signal list \<Rightarrow> (string \<times> string) list \<Rightarrow> member list \<Rightarrow>
   (string \<times> string) list promise \<times> member list" where
  "await_updates [] updates subs = (Pending, subs)"
| "await_updates (Package info packageId # evs) updates subs =
     await_updates evs
       (updates @ [(package_name packageId, if info = 8 then ''security'' else ''normal'')]) subs"
| "await_updates (Finished exitCode # evs) updates subs =
     (Resolved updates, remove1 Finished_m subs)"
| "await_updates (ErrorCode code details # evs) updates subs =
     (Rejected (Error (Some details)), remove1 ErrorCode_m subs)"
| "await_updates (CallRejected e # evs) updates subs = (Rejected e, subs)"
| "await_updates (Percentage p # evs) updates subs = await_updates evs updates subs"
| "await_updates (ItemProgress packageId p # evs) updates subs = await_updates evs updates subs"

text \<open>The \<open>catch\<close> block of getUpdatesForHost, applied to the initial \<open>result\<close>.\<close>

definition check_failed :: "Env \<Rightarrow> js_error \<Rightarrow> UpdateInfo" where
  "check_failed env err =
     \<lparr> total_updates = 0, security = 0, loading = False,
       error =
         (if (case message err of None \<Rightarrow> False
              | Some msg \<Rightarrow> str_includes msg ''not-found'' \<or> str_includes msg ''ServiceUnknown'')
          then Some (gettext env ''PackageKit not available'')
          else (case message err of
                  None \<Rightarrow> Some (gettext env ''Failed to check for updates'')
                | Some msg \<Rightarrow>
                    Some (if msg = [] then gettext env ''Failed to check for updates'' else msg))),
       lastChecked = Some (now env) \<rparr>"

text \<open>
  getUpdatesForHost. \<open>dbus\<close> is \<open>cockpit.dbus("org.freedesktop.PackageKit", options)\<close>:
  the remote service reached with the given options. The second component is the list
  of subscriptions still registered when the function returns.
\<close>

definition getUpdatesForHost ::
  "Env \<Rightarrow> (string option \<Rightarrow> pk_remote) \<Rightarrow> string \<Rightarrow> UpdateInfo promise \<times> member list" where
  "getUpdatesForHost env dbus host =
     (let r = dbus (dbus_options host) in
      case open_transaction env r of
        Pending \<Rightarrow> (Pending, [])
      | Rejected e \<Rightarrow> (Resolved (check_failed env e), [])
      | Resolved path \<Rightarrow>
          (case await_updates (signals r) [] [Package_m, Finished_m, ErrorCode_m] of
             (Pending, subs) \<Rightarrow> (Pending, subs)
           | (Rejected e, subs) \<Rightarrow> (Resolved (check_failed env e), subs)
           | (Resolved updates, subs) \<Rightarrow>
               (Resolved
                  \<lparr> total_updates = int (length updates),
                    security = int (length (filter (\<lambda>u. snd u = ''security'') updates)),
                    loading = False, error = None, lastChecked = Some (now env) \<rparr>,
                remove1 Package_m subs)))"

subsection \<open>installUpdatesOnHost\<close>

text \<open>The object the install resolves to; \<open>error\<close> is named \<open>install_error\<close> here.\<close>

record InstallResult =
  success :: bool
  install_error :: "string option"
  rebootRequired :: "bool option"

text \<open>
  The wait for completion in installUpdatesOnHost. \<open>onProgress\<close> tells whether the
  caller passed a callback (only then are the two progress members subscribed);
  \<open>calls\<close> collects the arguments of the callback's invocations, in order.
\<close>

fun await_install ::
  "Env \<Rightarrow> bool \<Rightarrow> signal list \<Rightarrow> (int \<times> string) list \<Rightarrow>
   bool promise \<times> (int \<times> string) list" where
  "await_install env onProgress [] calls = (Pending, calls)"
| "await_install env onProgress (Percentage percent # evs) calls =
     await_install env onProgress evs
       (if onProgress \<and> percent \<le> 100
        then calls @ [(percent, gettext env ''Installing updates...'')] else calls)"
| "await_install env onProgress (ItemProgress packageId percent # evs) calls =
     await_install env onProgress evs
       (if onProgress \<and> percent \<le> 100
        then calls @ [(percent, format env (gettext env ''Updating $0...'')
                                  [Some (package_name packageId)])]
        else calls)"
| "await_install env onProgress (Finished exitCode # evs) calls = (Resolved (exitCode = 1), calls)"
| "await_install env onProgress (ErrorCode code details # evs) calls =
     (Rejected (Error (Some details)), calls)"
| "await_install env onProgress (CallRejected e # evs) calls = (Rejected e, calls)"
| "await_install env onProgress (Package info packageId # evs) calls =
     await_install env onProgress evs calls"

text \<open>The \<open>catch\<close> block of installUpdatesOnHost.\<close>

definition install_failed :: "Env \<Rightarrow> js_error \<Rightarrow> InstallResult" where
  "install_failed env err =
     \<lparr> success = False,
       install_error =
         (case message err of
            None \<Rightarrow> Some (gettext env ''Failed to install updates'')
          | Some msg \<Rightarrow> Some (if msg = [] then gettext env ''Failed to install updates'' else msg)),
       rebootRequired = None \<rparr>"

text \<open>
  installUpdatesOnHost. The components of the result: the promise, the invocations of
  the progress callback, and the subscriptions still registered on return. The flag
  \<open>securityOnly\<close> only selects the flags passed to \<open>UpdatePackages\<close>.
\<close>

definition installUpdatesOnHost ::
  "Env \<Rightarrow> (string option \<Rightarrow> pk_remote) \<Rightarrow> string \<Rightarrow> bool \<Rightarrow> bool \<Rightarrow>
   InstallResult promise \<times> (int \<times> string) list \<times> member list" where
  "installUpdatesOnHost env dbus host onProgress securityOnly =
     (let r = dbus (dbus_options host) in
      case open_transaction env r of
        Pending \<Rightarrow> (Pending, [], [])
      | Rejected e \<Rightarrow> (Resolved (install_failed env e), [], [])
      | Resolved path \<Rightarrow>
          (let subs = (if onProgress then [Percentage_m, ItemProgress_m] else [])
                        @ [Finished_m, ErrorCode_m] in
           case await_install env onProgress (signals r) [] of
             (Pending, calls) \<Rightarrow> (Pending, calls, subs)
           | (Rejected e, calls) \<Rightarrow> (Resolved (install_failed env e), calls, subs)
           | (Resolved reboot, calls) \<Rightarrow>
               (Resolved \<lparr> success = True, install_error = None, rebootRequired = Some reboot \<rparr>,
                calls, subs)))"

subsection \<open>refreshPackageCache\<close>

fun await_refresh :: "signal list \<Rightarrow> unit promise" where
  "await_refresh [] = Pending"
| "await_refresh (Finished exitCode # evs) = Resolved ()"
| "await_refresh (ErrorCode code details # evs) = Rejected (Error (Some details))"
| "await_refresh (CallRejected e # evs) = Rejected e"
| "await_refresh (Package info packageId # evs) = await_refresh evs"
| "await_refresh (Percentage p # evs) = await_refresh evs"
| "await_refresh (ItemProgress packageId p # evs) = await_refresh evs"

text \<open>refreshPackageCache has no \<open>try\<close> block: every error rejects the returned promise.\<close>

definition refreshPackageCache ::
  "Env \<Rightarrow> (string option \<Rightarrow> pk_remote) \<Rightarrow> string \<Rightarrow> unit promise \<times> member list" where
  "refreshPackageCache env dbus host =
     (let r = dbus (dbus_options host) in
      case open_transaction env r of
        Pending \<Rightarrow> (Pending, [])
      | Rejected e \<Rightarrow> (Rejected e, [])
      | Resolved path \<Rightarrow> (await_refresh (signals r), [Finished_m, ErrorCode_m]))"

subsection \<open>checkMachineConnection\<close>

text \<open>
  What \<open>channel.close()\<close>, called by the timer, does before it returns: it raises
  the close event on the channel (with the \<open>problem\<close> of the event's options,
  \<open>None\<close> when undefined), or it raises none. Cockpit's \<open>close\<close> raises the event
  itself, and without a problem when it is called without one.
\<close>

datatype close_effect = NoEvent | RaisesClose "string option"

text \<open>
  What happens to the channel opened for the probe: \<open>cockpit.channel\<close> throws, or the
  close event is dispatched before the 10 second timer (with the \<open>problem\<close> of its
  options), or the timer fires first.
\<close>

datatype channel_behaviour =
  ChannelThrows | ClosedFirst "string option" | TimeoutFirst close_effect

text \<open>What the probe does to the remote side.\<close>

datatype channel_action = ChannelOpen string | ChannelClose

text \<open>The value the close listener passes to \<open>resolve\<close>.\<close>

definition close_listener :: "string option \<Rightarrow> string" where
  "close_listener problem =
     (if problem \<noteq> None \<and> problem \<noteq> Some [] then ''failed'' else ''connected'')"

text \<open>
  The promise is settled by the first call of \<open>resolve\<close>; later calls change nothing.
\<close>

definition first_resolve :: "string list \<Rightarrow> string promise" where
  "first_resolve calls = (case calls of [] \<Rightarrow> Pending | r # _ \<Rightarrow> Resolved r)"

text \<open>
  The timer callback: \<open>channel.close()\<close>, during which the listener registered for
  the close event runs if the event is raised, and then \<open>resolve("failed")\<close>. The
  result is the list of the values passed to \<open>resolve\<close>, in order.
\<close>

definition timer_callback :: "close_effect \<Rightarrow> string list" where
  "timer_callback effect =
     (case effect of NoEvent \<Rightarrow> [] | RaisesClose problem \<Rightarrow> [close_listener problem])
     @ [''failed'']"

text \<open>
  checkMachineConnection. \<open>channel\<close> tells what happens to the channel opened to a
  host.
\<close>

definition checkMachineConnection ::
  "(string \<Rightarrow> channel_behaviour) \<Rightarrow> string \<Rightarrow> string promise \<times> channel_action list" where
  "checkMachineConnection channel host =
     (if host = ''localhost'' then (Resolved ''connected'', [])
      else (case channel host of
              ChannelThrows \<Rightarrow> (Resolved ''failed'', [ChannelOpen host])
            | TimeoutFirst effect \<Rightarrow>
                (first_resolve (timer_callback effect), [ChannelOpen host, ChannelClose])
            | ClosedFirst problem \<Rightarrow>
                (first_resolve [close_listener problem], [ChannelOpen host])))"

section \<open>Dashboard state and operations (dashboard.tsx)\<close>

subsection \<open>Reading properties of a string value\<close>

text \<open>
  Both callers of checkMachineConnection destructure the awaited value as
  \<open>{ state, hostname }\<close>. The value is a string primitive. Its own properties are
  \<open>length\<close> and the indices below the length; every other name is looked up on
  \<open>String.prototype\<close>, which holds methods only and none named \<open>state\<close> or
  \<open>hostname\<close>, so the methods are left out of the model.
\<close>

datatype js_value = JUndefined | JString string | JNumber int

definition is_digit :: "char \<Rightarrow> bool" where
  "is_digit c = (48 \<le> (of_char c :: nat) \<and> (of_char c :: nat) \<le> 57)"

definition canonical_index :: "string \<Rightarrow> nat option" where
  "canonical_index p =
     (if p = [] \<or> \<not> list_all is_digit p \<or> (1 < length p \<and> hd p = CHR ''0'') then None
      else Some (foldl (\<lambda>n c. 10 * n + ((of_char c :: nat) - 48)) 0 p))"

definition string_property :: "string \<Rightarrow> string \<Rightarrow> js_value" where
  "string_property s p =
     (if p = ''length'' then JNumber (int (length s))
      else (case canonical_index p of
              None \<Rightarrow> JUndefined
            | Some i \<Rightarrow> if i < length s then JString [s ! i] else JUndefined))"

text \<open>\<open>const { state, hostname } = value\<close> for a string \<open>value\<close>.\<close>

definition destructure_state_hostname :: "string \<Rightarrow> js_value \<times> js_value" where
  "destructure_state_hostname v = (string_property v ''state'', string_property v ''hostname'')"

text \<open>
  Storing such a value in the \<open>state\<close> field, and \<open>hostname || m.label\<close>. A number
  cannot be stored in either field of the record; the two properties read are never
  numbers.
\<close>

definition state_of_value :: "js_value \<Rightarrow> string option" where
  "state_of_value v = (case v of JString s \<Rightarrow> Some s | _ \<Rightarrow> None)"

definition value_or_label :: "js_value \<Rightarrow> string \<Rightarrow> string" where
  "value_or_label v l = (case v of JString s \<Rightarrow> (if s = [] then l else s) | _ \<Rightarrow> l)"

subsection \<open>The component state\<close>

text \<open>The interface \<open>MachineWithUpdates\<close>, which extends \<open>Machine\<close>.\<close>

record MachineWithUpdates = Machine +
  updates :: UpdateInfo
  updateProgress :: "(int \<times> string) option"
  updating :: "bool option"
  selected :: "bool option"

text \<open>
  The calls the dashboard makes to machines-api.ts, in the order in which they are
  made. \<open>InstallSettled\<close> marks the return of the awaited installUpdatesOnHost and
  \<open>FlagsCleared\<close> the run of the \<open>finally\<close> block of updateMachine.
\<close>

datatype api_call =
    CheckConnection string
  | RefreshCache string
  | GetUpdates string
  | InstallCalled string bool
  | InstallSettled string
  | FlagsCleared string

text \<open>
  The React state of \<open>MachinesDashboard\<close> that the update operations write, with the
  record of the calls made so far.
\<close>

record Dashboard =
  machines :: "MachineWithUpdates list"
  alerts :: "(string \<times> string) list"
  bulkUpdating :: bool
  api_log :: "api_call list"

text \<open>What the remote side does during one operation on one machine.\<close>

record World =
  channel :: "string \<Rightarrow> channel_behaviour"
  install_dbus :: "string option \<Rightarrow> pk_remote"
  refresh_dbus :: "string option \<Rightarrow> pk_remote"
  check_dbus :: "string option \<Rightarrow> pk_remote"

text \<open>\<open>setMachines(prev => prev.map(m => m.key === host ? f(m) : m))\<close>.\<close>

definition setMachines_at ::
  "string \<Rightarrow> (MachineWithUpdates \<Rightarrow> MachineWithUpdates) \<Rightarrow> Dashboard \<Rightarrow> Dashboard" where
  "setMachines_at host f st =
     st\<lparr> machines := map (\<lambda>m. if key m = host then f m else m) (machines st) \<rparr>"

definition addAlert :: "string \<Rightarrow> string \<Rightarrow> Dashboard \<Rightarrow> Dashboard" where
  "addAlert variant title st = st\<lparr> alerts := alerts st @ [(variant, title)] \<rparr>"

definition log_call :: "api_call \<Rightarrow> Dashboard \<Rightarrow> Dashboard" where
  "log_call c st = st\<lparr> api_log := api_log st @ [c] \<rparr>"

subsection \<open>refreshMachine\<close>

text \<open>The \<open>catch\<close> block of refreshMachine.\<close>

definition refresh_catch :: "Env \<Rightarrow> string \<Rightarrow> js_error \<Rightarrow> Dashboard \<Rightarrow> Dashboard" where
  "refresh_catch env host err st =
     addAlert ''danger''
       (format env (gettext env ''Failed to check updates on $0: $1'') [Some host, message err])
       (setMachines_at host
          (\<lambda>m. m\<lparr> updates := (updates m)\<lparr> loading := False, error := message err \<rparr> \<rparr>) st)"

text \<open>The part of the \<open>try\<close> block after the connection test.\<close>

definition refresh_updates ::
  "Env \<Rightarrow> World \<Rightarrow> string \<Rightarrow> Dashboard \<Rightarrow> unit promise \<times> Dashboard" where
  "refresh_updates env world host st =
     (let st1 = log_call (RefreshCache host) st in
      case fst (refreshPackageCache env (refresh_dbus world) host) of
        Pending \<Rightarrow> (Pending, st1)
      | Rejected e \<Rightarrow> (Resolved (), refresh_catch env host e st1)
      | Resolved _ \<Rightarrow>
          (let st2 = log_call (GetUpdates host) st1 in
           case fst (getUpdatesForHost env (check_dbus world) host) of
             Pending \<Rightarrow> (Pending, st2)
           | Rejected e \<Rightarrow> (Resolved (), refresh_catch env host e st2)
           | Resolved u \<Rightarrow>
               (Resolved (),
                setMachines_at host (\<lambda>m. m\<lparr> state := Some ''connected'', updates := u \<rparr>) st2)))"

text \<open>
  refreshMachine. \<open>snapshot\<close> is the array \<open>machines\<close> captured by the callback when
  it was created; \<open>st\<close> is the current state, to which the updaters apply.
\<close>

definition refreshMachine ::
  "Env \<Rightarrow> World \<Rightarrow> MachineWithUpdates list \<Rightarrow> string \<Rightarrow> Dashboard \<Rightarrow>
   unit promise \<times> Dashboard" where
  "refreshMachine env world snapshot host st =
     (let st1 = setMachines_at host
                  (\<lambda>m. m\<lparr> state := (if state m = Some ''connected'' then Some ''connected''
                                       else Some ''connecting''),
                            updates := (updates m)\<lparr> loading := True \<rparr> \<rparr>) st in
      case find (\<lambda>m. key m = host) snapshot of
        None \<Rightarrow> refresh_updates env world host st1
      | Some machine \<Rightarrow>
          if state machine \<noteq> Some ''connected'' then
            (let st2 = log_call (CheckConnection host) st1 in
             case fst (checkMachineConnection (channel world) host) of
               Pending \<Rightarrow> (Pending, st2)
             | Rejected e \<Rightarrow> (Resolved (), refresh_catch env host e st2)
             | Resolved r \<Rightarrow>
                 (let (connectionState, hostname) = destructure_state_hostname r;
                      st3 = setMachines_at host
                              (\<lambda>m. m\<lparr> state := state_of_value connectionState,
                                        label := value_or_label hostname (label m) \<rparr>) st2
                  in if connectionState \<noteq> JString ''connected'' then
                       (Resolved (),
                        setMachines_at host
                          (\<lambda>m. m\<lparr> updates :=
                                      \<lparr> total_updates = 0, security = 0, loading = False,
                                        error = Some (gettext env ''Machine not connected''),
                                        lastChecked = Some (now env) \<rparr> \<rparr>) st3)
                     else refresh_updates env world host st3))
          else refresh_updates env world host st1)"

subsection \<open>updateMachine\<close>

text \<open>The \<open>finally\<close> block of updateMachine; its run is entered in the record of calls.\<close>

definition update_finally :: "string \<Rightarrow> Dashboard \<Rightarrow> Dashboard" where
  "update_finally host st =
     log_call (FlagsCleared host)
       (setMachines_at host (\<lambda>m. m\<lparr> updating := Some False, updateProgress := None \<rparr>) st)"

text \<open>The \<open>catch\<close> block of updateMachine followed by the \<open>finally\<close> block.\<close>

definition update_catch :: "Env \<Rightarrow> string \<Rightarrow> js_error \<Rightarrow> Dashboard \<Rightarrow> Dashboard" where
  "update_catch env host err st =
     update_finally host
       (addAlert ''danger''
          (format env (gettext env ''Failed to update $0: $1'') [Some host, message err]) st)"

text \<open>The progress callback passed to installUpdatesOnHost, run on each invocation.\<close>

definition run_progress :: "string \<Rightarrow> (int \<times> string) list \<Rightarrow> Dashboard \<Rightarrow> Dashboard" where
  "run_progress host calls st =
     foldl (\<lambda>s ps. setMachines_at host (\<lambda>m. m\<lparr> updateProgress := Some ps \<rparr>) s) st calls"

text \<open>The alerts raised in the branch \<open>if (result.success)\<close> of updateMachine.\<close>

definition success_alerts :: "Env \<Rightarrow> string \<Rightarrow> InstallResult \<Rightarrow> Dashboard \<Rightarrow> Dashboard" where
  "success_alerts env host result st =
     (let st1 = addAlert ''success''
                  (format env (gettext env ''Updates installed successfully on $0'') [Some host]) st
      in if rebootRequired result = Some True
         then addAlert ''warning''
                (format env (gettext env ''$0 requires a reboot to complete the update'')
                   [Some host]) st1
         else st1)"

text \<open>The branch \<open>if (result.success)\<close>, up to the end of the function.\<close>

definition update_succeeded ::
  "Env \<Rightarrow> World \<Rightarrow> MachineWithUpdates list \<Rightarrow> string \<Rightarrow> InstallResult \<Rightarrow> Dashboard \<Rightarrow>
   unit promise \<times> Dashboard" where
  "update_succeeded env world snapshot host result st =
     (case refreshMachine env world snapshot host (success_alerts env host result st) of
        (Pending, st3) \<Rightarrow> (Pending, st3)
      | (Rejected e, st3) \<Rightarrow> (Resolved (), update_catch env host e st3)
      | (Resolved _, st3) \<Rightarrow> (Resolved (), update_finally host st3))"

text \<open>
  updateMachine from the point where the awaited install has settled. \<open>new
  Error(result.error)\<close> has the message \<open>result.error\<close>, or the empty message when
  that is undefined.
\<close>

definition update_settled ::
  "Env \<Rightarrow> World \<Rightarrow> MachineWithUpdates list \<Rightarrow> string \<Rightarrow> InstallResult promise \<Rightarrow>
   Dashboard \<Rightarrow> unit promise \<times> Dashboard" where
  "update_settled env world snapshot host outcome st =
     (case outcome of
        Pending \<Rightarrow> (Pending, st)
      | Rejected e \<Rightarrow> (Resolved (), update_catch env host e (log_call (InstallSettled host) st))
      | Resolved result \<Rightarrow>
          (let st4 = log_call (InstallSettled host) st in
           if success result then update_succeeded env world snapshot host result st4
           else (Resolved (),
                 update_catch env host (Error (Some (pick (install_error result) []))) st4)))"

text \<open>updateMachine.\<close>

definition updateMachine ::
  "Env \<Rightarrow> World \<Rightarrow> MachineWithUpdates list \<Rightarrow> string \<Rightarrow> bool \<Rightarrow> Dashboard \<Rightarrow>
   unit promise \<times> Dashboard" where
  "updateMachine env world snapshot host securityOnly st =
     (let st1 = setMachines_at host
                  (\<lambda>m. m\<lparr> updating := Some True,
                            updateProgress := Some (0, gettext env ''Starting update...'') \<rparr>) st;
          st2 = log_call (InstallCalled host securityOnly) st1;
          (outcome, calls, subs) =
             installUpdatesOnHost env (install_dbus world) host True securityOnly;
          st3 = run_progress host calls st2
      in update_settled env world snapshot host outcome st3)"

subsection \<open>updateAll\<close>

text \<open>The filter of updateAll: connected, with updates, not updating.\<close>

definition has_pending_updates :: "MachineWithUpdates \<Rightarrow> bool" where
  "has_pending_updates m =
     (state m = Some ''connected'' \<and> 0 < total_updates (updates m) \<and> updating m \<noteq> Some True)"

text \<open>
  The \<open>for\<close> loop of updateAll over the keys of the filtered machines. \<open>world i\<close> is
  what the remote side does during the \<open>i\<close>-th iteration.
\<close>

fun update_each ::
  "Env \<Rightarrow> (nat \<Rightarrow> World) \<Rightarrow> MachineWithUpdates list \<Rightarrow> bool \<Rightarrow> nat \<Rightarrow> string list \<Rightarrow>
   Dashboard \<Rightarrow> unit promise \<times> Dashboard" where
  "update_each env world snapshot securityOnly i [] st = (Resolved (), st)"
| "update_each env world snapshot securityOnly i (host # hosts) st =
     (case updateMachine env (world i) snapshot host securityOnly st of
        (Pending, st1) \<Rightarrow> (Pending, st1)
      | (Rejected e, st1) \<Rightarrow> (Rejected e, st1)
      | (Resolved _, st1) \<Rightarrow> update_each env world snapshot securityOnly (Suc i) hosts st1)"

definition machinesWithUpdates :: "MachineWithUpdates list \<Rightarrow> MachineWithUpdates list" where
  "machinesWithUpdates snapshot = filter has_pending_updates snapshot"

definition updateAll ::
  "Env \<Rightarrow> (nat \<Rightarrow> World) \<Rightarrow> MachineWithUpdates list \<Rightarrow> bool \<Rightarrow> Dashboard \<Rightarrow>
   unit promise \<times> Dashboard" where
  "updateAll env world snapshot securityOnly st =
     (case update_each env world snapshot securityOnly 0
             (map key (machinesWithUpdates snapshot)) (st\<lparr> bulkUpdating := True \<rparr>) of
        (Pending, st1) \<Rightarrow> (Pending, st1)
      | (Rejected e, st1) \<Rightarrow> (Rejected e, st1)
      | (Resolved _, st1) \<Rightarrow> (Resolved (), st1\<lparr> bulkUpdating := False \<rparr>))"

subsection \<open>Reading the record of calls\<close>





section \<open>Notions used in the statements\<close>

text \<open>
  The document the reader works on: present when the stored item exists, is not the
  empty string, and parses to something other than \<open>null\<close>.
\<close>

definition registry_document :: "Runtime \<Rightarrow> 'a Window_scheme \<Rightarrow> MachinesData option" where
  "registry_document rt w =
     (case sessionStorage_item w of
        None \<Rightarrow> None
      | Some data \<Rightarrow>
          if data = [] then None
          else (case JSON_parse rt data of JsonDoc parsed \<Rightarrow> Some parsed | _ \<Rightarrow> None))"


text \<open>
  The machines the reader has before it sorts them: the visible machines of the
  document in registry order, or the fallback entry.
\<close>

definition registry_machines :: "Runtime \<Rightarrow> 'a Window_scheme \<Rightarrow> Machine list" where
  "registry_machines rt w =
     (case registry_document rt w of
        None \<Rightarrow> localhost_fallback w
      | Some doc \<Rightarrow>
          if visible_machines w doc = [] then localhost_fallback w
          else visible_machines w doc)"

text \<open>Two roster entries whose labels the locale's comparison does not tell apart.\<close>

definition same_label :: "Runtime \<Rightarrow> Machine \<Rightarrow> Machine \<Rightarrow> bool" where
  "same_label rt a b =
     (localeCompare rt (label a) (label b) \<le> 0 \<and> localeCompare rt (label b) (label a) \<le> 0)"

text \<open>
  \<open>ys\<close> arranges the entries of \<open>xs\<close> and keeps entries of the same label in the
  order they have in \<open>xs\<close>: for every entry, the entries with its label are the same
  list in both.
\<close>

definition keeps_order :: "Runtime \<Rightarrow> Machine list \<Rightarrow> Machine list \<Rightarrow> bool" where
  "keeps_order rt xs ys =
     list_all (\<lambda>x. filter (same_label rt x) ys = filter (same_label rt x) xs) (xs @ ys)"

text \<open>A consistent comparison function: total and transitive.\<close>

definition total_preorder :: "(string \<Rightarrow> string \<Rightarrow> int) \<Rightarrow> bool" where
  "total_preorder cmp =
     ((\<forall>a b. cmp a b \<le> 0 \<or> cmp b a \<le> 0) \<and>
      (\<forall>a b c. cmp a b \<le> 0 \<and> cmp b c \<le> 0 \<longrightarrow> cmp a c \<le> 0))"

text \<open>Signals that settle the promise a transaction call waits on.\<close>

fun is_terminal :: "signal \<Rightarrow> bool" where
  "is_terminal (Finished exitCode) = True"
| "is_terminal (ErrorCode code details) = True"
| "is_terminal (CallRejected e) = True"
| "is_terminal s = False"

fun is_finished :: "signal option \<Rightarrow> bool" where
  "is_finished (Some (Finished exitCode)) = True"
| "is_finished s = False"

text \<open>
  The remote service answers a call when \<open>CreateTransaction\<close> settles and, if a usable
  path came back, the proxy becomes ready or fails and a settling signal arrives.
\<close>

definition remote_answers :: "pk_remote \<Rightarrow> bool" where
  "remote_answers r =
     (case CreateTransaction r of
        Pending \<Rightarrow> False
      | Rejected e \<Rightarrow> True
      | Resolved transactionPath \<Rightarrow>
          (case transactionPath of
             [] \<Rightarrow> True
           | p # ps \<Rightarrow>
               if p = [] then True
               else (case proxy_wait r of
                       Pending \<Rightarrow> False
                     | Rejected e \<Rightarrow> True
                     | Resolved u \<Rightarrow> list_ex is_terminal (signals r))))"

text \<open>
  The transaction runs to its Finished signal: a usable path, a ready proxy, and
  Finished as the first settling signal.
\<close>

definition remote_finishes :: "pk_remote \<Rightarrow> bool" where
  "remote_finishes r =
     (case CreateTransaction r of
        Resolved (p # ps) \<Rightarrow>
          p \<noteq> [] \<and> proxy_wait r = Resolved () \<and> is_finished (find is_terminal (signals r))
      | _ \<Rightarrow> False)"

text \<open>
  The percentages of the progress signals delivered before the promise settles.
\<close>

fun progress_percents :: "signal list \<Rightarrow> int list" where
  "progress_percents [] = []"
| "progress_percents (Percentage percent # evs) = percent # progress_percents evs"
| "progress_percents (ItemProgress packageId percent # evs) = percent # progress_percents evs"
| "progress_percents (Package info packageId # evs) = progress_percents evs"
| "progress_percents (s # evs) = []"

text \<open>A percentage within the range from 0 to 100.\<close>

definition percent_in_range :: "int \<Rightarrow> bool" where
  "percent_in_range percent = (0 \<le> percent \<and> percent \<le> 100)"

text \<open>The calls that refreshMachine makes.\<close>

fun refresh_call :: "api_call \<Rightarrow> bool" where
  "refresh_call (CheckConnection host) = True"
| "refresh_call (RefreshCache host) = True"
| "refresh_call (GetUpdates host) = True"
| "refresh_call c = False"

text \<open>The awaited install reported success.\<close>

fun install_succeeded :: "InstallResult promise \<Rightarrow> bool" where
  "install_succeeded (Resolved result) = success result"
| "install_succeeded outcome = False"

text \<open>
  The message of the error that reaches the \<open>catch\<close> block of updateMachine when the
  install did not succeed: \<open>result.error\<close>, or the empty string when that is undefined.
\<close>

fun failure_message :: "InstallResult promise \<Rightarrow> string option" where
  "failure_message (Resolved result) =
     Some (case install_error result of None \<Rightarrow> [] | Some msg \<Rightarrow> msg)"
| "failure_message (Rejected e) = message e"
| "failure_message Pending = None"

text \<open>
  The keys of the machines, with the \<open>updating\<close> flag of every machine whose key is
  not in \<open>K\<close>: what an operation on the machines of \<open>K\<close> leaves as it was.
\<close>

definition frame :: "string set \<Rightarrow> MachineWithUpdates list \<Rightarrow> (string \<times> bool option option) list" where
  "frame K ms = map (\<lambda>m. (key m, if key m \<in> K then None else Some (updating m))) ms"

text \<open>The flags of an install are cleared on every machine with one of the given keys.\<close>

definition cleared :: "string list \<Rightarrow> MachineWithUpdates list \<Rightarrow> bool" where
  "cleared hosts ms =
     list_all (\<lambda>m. key m \<notin> set hosts \<or> (updating m = Some False \<and> updateProgress m = None)) ms"


section \<open>Example inputs\<close>

text \<open>A registry entry with no property set, and a comparison by code units.\<close>

definition no_properties :: PartialMachine where
  "no_properties =
     \<lparr> p_key = None, p_address = None, p_label = None, p_user = None, p_color = None,
       p_state = None, p_visible = None, p_avatar = None \<rparr>"

definition codeunit :: "char \<Rightarrow> nat" where
  "codeunit c = of_char c"

fun codeunit_compare :: "string \<Rightarrow> string \<Rightarrow> int" where
  "codeunit_compare [] [] = 0"
| "codeunit_compare [] (y # ys) = - 1"
| "codeunit_compare (x # xs) [] = 1"
| "codeunit_compare (x # xs) (y # ys) =
     (if codeunit x < codeunit y then - 1
      else if codeunit y < codeunit x then 1
      else codeunit_compare xs ys)"

definition example_runtime :: "MachinesData \<Rightarrow> Runtime" where
  "example_runtime doc = \<lparr> JSON_parse = (\<lambda>data. JsonDoc doc), localeCompare = codeunit_compare \<rparr>"

definition example_window :: Window where
  "example_window = \<lparr> sessionStorage_item = Some ''registry'', location_hostname = ''console'' \<rparr>"



text \<open>A registry with two hosts of the same label, and the roster read from it.\<close>

definition tied_doc :: MachinesData where
  "tied_doc =
     \<lparr> content = Some [(''b-host'', no_properties\<lparr> p_label := Some ''db'' \<rparr>),
                       (''a-host'', no_properties\<lparr> p_label := Some ''db'' \<rparr>),
                       (''c-host'', no_properties\<lparr> p_label := Some ''app'' \<rparr>)],
       overlay = None \<rparr>"

definition tied_roster :: "Machine list" where
  "tied_roster =
     [\<lparr> key = ''c-host'', address = ''c-host'', label = ''app'', user = None, color = None,
        state = None, visible = None, avatar = None \<rparr>,
      \<lparr> key = ''b-host'', address = ''b-host'', label = ''db'', user = None, color = None,
        state = None, visible = None, avatar = None \<rparr>,
      \<lparr> key = ''a-host'', address = ''a-host'', label = ''db'', user = None, color = None,
        state = None, visible = None, avatar = None \<rparr>]"

definition later_window :: "bool Window_scheme" where
  "later_window =
     \<lparr> sessionStorage_item = Some ''registry'', location_hostname = ''console'', \<dots> = True \<rparr>"

text \<open>
  A cockpit environment without translation, whose \<open>format\<close> lists the arguments
  after the pattern instead of substituting them, and remote services that are ready.
\<close>

definition example_format :: "string \<Rightarrow> string option list \<Rightarrow> string" where
  "example_format fmt args =
     fmt @ concat (map (\<lambda>a. '' / '' @ (case a of None \<Rightarrow> ''undefined'' | Some x \<Rightarrow> x)) args)"

definition example_env :: Env where
  "example_env = \<lparr> gettext = (\<lambda>s. s), format = example_format, now = 1000 \<rparr>"

definition ready_remote :: "signal list \<Rightarrow> pk_remote" where
  "ready_remote evs =
     \<lparr> CreateTransaction = Resolved [''/45_deadbeef''], proxy_wait = Resolved (), signals = evs \<rparr>"

definition example_dbus :: "signal list \<Rightarrow> string option \<Rightarrow> pk_remote" where
  "example_dbus evs options = ready_remote evs"

definition silent_channel :: "string \<Rightarrow> channel_behaviour" where
  "silent_channel host = TimeoutFirst (RaisesClose None)"

definition clean_channel :: "string \<Rightarrow> channel_behaviour" where
  "clean_channel host = ClosedFirst None"

definition three_updates :: "signal list" where
  "three_updates =
     [Package 8 ''openssl;3.0.2;x86_64;updates'', Package 11 ''vim;9.0;x86_64;updates'',
      Package 11 ''bash;5.2;x86_64;updates'', Finished 1]"

definition negative_progress :: "signal list" where
  "negative_progress = [Percentage (- 5), Finished 1]"

definition mixed_progress :: "signal list" where
  "mixed_progress =
     [Percentage 10, ItemProgress ''vim;9.0;x86_64;updates'' 101, Percentage 101,
      ItemProgress ''vim;9.0;x86_64;updates'' 100, ErrorCode 2 ''no network'']"

text \<open>A dashboard with three machines, and remote sides for the operations on them.\<close>

definition example_machine :: "string \<Rightarrow> string \<Rightarrow> int \<Rightarrow> MachineWithUpdates" where
  "example_machine k s n =
     \<lparr> key = k, address = k, label = k, user = None, color = None, state = Some s,
       visible = Some True, avatar = None,
       updates = \<lparr> total_updates = n, security = 0, loading = False, error = None,
                   lastChecked = Some 900 \<rparr>,
       updateProgress = None, updating = None, selected = None \<rparr>"

definition example_snapshot :: "MachineWithUpdates list" where
  "example_snapshot =
     [example_machine ''10.0.0.5'' ''connected'' 2,
      example_machine ''10.0.0.6'' ''failed'' 0,
      example_machine ''localhost'' ''connected'' 1]"


definition example_dashboard :: "MachineWithUpdates list \<Rightarrow> Dashboard" where
  "example_dashboard ms = \<lparr> machines = ms, alerts = [], bulkUpdating = False, api_log = [] \<rparr>"

definition example_world :: "signal list \<Rightarrow> World" where
  "example_world install_signals =
     \<lparr> channel = clean_channel,
       install_dbus = example_dbus install_signals,
       refresh_dbus = example_dbus [Finished 1],
       check_dbus = example_dbus [Finished 1] \<rparr>"

definition example_worlds :: "nat \<Rightarrow> World" where
  "example_worlds i =
     (if i = 0 then example_world [ErrorCode 2 ''no network'']
      else example_world [Percentage 50, Finished 1])"

section \<open>Properties of the registry reader\<close>

lemma set_sort_insert: "set (sort_insert cmp x xs) = insert x (set xs)"
  by (induction xs) auto

lemma set_Array_sort: "set (Array_sort cmp xs) = set xs"
  by (induction xs) (auto simp: set_sort_insert)








lemma collect_machines_hostname:
  "location_hostname w2 = location_hostname w1 \<Longrightarrow>
   collect_machines w2 c ov hosts acc = collect_machines w1 c ov hosts acc"
  by (induction hosts arbitrary: acc) (simp_all add: Let_def with_default_label_def)

lemma visible_machines_hostname:
  "location_hostname w2 = location_hostname w1 \<Longrightarrow>
   visible_machines w2 doc = visible_machines w1 doc"
  by (simp add: visible_machines_def Let_def collect_machines_hostname [of w2 w1])

lemma sorted_sort_insert:
  assumes tot: "\<And>a b. cmp a b \<le> 0 \<or> cmp b a \<le> 0"
      and trans: "\<And>a b c. cmp a b \<le> 0 \<Longrightarrow> cmp b c \<le> 0 \<Longrightarrow> cmp a c \<le> 0"
      and srt: "sorted_wrt (\<lambda>a b. cmp a b \<le> 0) xs"
  shows "sorted_wrt (\<lambda>a b. cmp a b \<le> 0) (sort_insert cmp x xs)"
  using srt
proof (induction xs)
  case Nil
  then show ?case by simp
next
  case (Cons y ys)
  show ?case
  proof (cases "cmp x y \<le> 0")
    case True
    with Cons.prems trans show ?thesis by auto
  next
    case False
    with tot have "cmp y x \<le> 0" by blast
    with False Cons show ?thesis by (auto simp: set_sort_insert)
  qed
qed

lemma sorted_Array_sort:
  assumes tot: "\<And>a b. cmp a b \<le> 0 \<or> cmp b a \<le> 0"
      and trans: "\<And>a b c. cmp a b \<le> 0 \<Longrightarrow> cmp b c \<le> 0 \<Longrightarrow> cmp a c \<le> 0"
  shows "sorted_wrt (\<lambda>a b. cmp a b \<le> 0) (Array_sort cmp xs)"
proof (induction xs)
  case Nil
  show ?case by simp
next
  case (Cons x xs)
  from sorted_sort_insert [of cmp "Array_sort cmp xs" x] tot trans Cons
  show ?case by simp
qed

lemma by_label_total:
  assumes "total_preorder (localeCompare rt)"
  shows "by_label rt a b \<le> 0 \<or> by_label rt b a \<le> 0"
  using assms unfolding total_preorder_def by_label_def by blast

lemma by_label_trans:
  assumes "total_preorder (localeCompare rt)"
  shows "by_label rt a b \<le> 0 \<Longrightarrow> by_label rt b c \<le> 0 \<Longrightarrow> by_label rt a c \<le> 0"
  using assms unfolding total_preorder_def by_label_def by blast

lemma getMachinesList_same_input:
  assumes "sessionStorage_item w2 = sessionStorage_item w1"
      and "location_hostname w2 = location_hostname w1"
  shows "getMachinesList rt w2 = getMachinesList rt w1"
  using assms visible_machines_hostname [of w2 w1]
  by (simp add: getMachinesList_def localhost_fallback_def Let_def
           split: option.splits parse_result.splits)

subsection \<open>A stable sort\<close>

lemma filter_sort_insert:
  assumes trans: "\<And>a b c. cmp a b \<le> 0 \<Longrightarrow> cmp b c \<le> 0 \<Longrightarrow> cmp a c \<le> 0"
  shows "filter (\<lambda>y. cmp x y \<le> 0 \<and> cmp y x \<le> 0) (sort_insert cmp a ys) =
         (if cmp x a \<le> 0 \<and> cmp a x \<le> 0
          then a # filter (\<lambda>y. cmp x y \<le> 0 \<and> cmp y x \<le> 0) ys
          else filter (\<lambda>y. cmp x y \<le> 0 \<and> cmp y x \<le> 0) ys)"
proof (induction ys)
  case Nil
  show ?case by simp
next
  case (Cons y ys)
  show ?case
  proof (cases "cmp a y \<le> 0")
    case True
    then show ?thesis by simp
  next
    case False
    have excl: "\<not> (cmp x y \<le> 0 \<and> cmp y x \<le> 0)" if "cmp x a \<le> 0 \<and> cmp a x \<le> 0"
    proof
      assume "cmp x y \<le> 0 \<and> cmp y x \<le> 0"
      with that have "cmp a x \<le> 0" "cmp x y \<le> 0" by simp_all
      then have "cmp a y \<le> 0" by (rule trans)
      with False show False by simp
    qed
    from False Cons.IH excl show ?thesis by auto
  qed
qed

lemma filter_Array_sort:
  assumes trans: "\<And>a b c. cmp a b \<le> 0 \<Longrightarrow> cmp b c \<le> 0 \<Longrightarrow> cmp a c \<le> 0"
  shows "filter (\<lambda>y. cmp x y \<le> 0 \<and> cmp y x \<le> 0) (Array_sort cmp xs) =
         filter (\<lambda>y. cmp x y \<le> 0 \<and> cmp y x \<le> 0) xs"
proof (induction xs)
  case Nil
  show ?case by simp
next
  case (Cons a xs)
  from filter_sort_insert [of cmp x a "Array_sort cmp xs"] trans Cons
  show ?case by simp
qed

subsection \<open>Only one arrangement\<close>

lemma sorted_stable_unique:
  fixes le :: "'a \<Rightarrow> 'a \<Rightarrow> bool"
  assumes refl: "\<And>x. le x x"
      and "sorted_wrt le ys" and "sorted_wrt le zs"
      and "\<forall>x\<in>S. filter (\<lambda>y. le x y \<and> le y x) ys = filter (\<lambda>y. le x y \<and> le y x) zs"
      and "set ys \<subseteq> S" and "set zs \<subseteq> S"
  shows "ys = zs"
  using assms(2-)
proof (induction ys arbitrary: zs)
  case Nil
  show ?case
  proof (cases zs)
    case Nil
    then show ?thesis by simp
  next
    case (Cons z zs')
    with Nil.prems(5) have "z \<in> S" by simp
    with Nil.prems(3) have "filter (\<lambda>y. le z y \<and> le y z) zs = []" by simp
    with Cons refl [of z] show ?thesis by simp
  qed
next
  case (Cons y ys')
  from Cons.prems(4) have yS: "y \<in> S" by simp
  with Cons.prems(3)
  have fy: "filter (\<lambda>w. le y w \<and> le w y) (y # ys') = filter (\<lambda>w. le y w \<and> le w y) zs"
    by blast
  have hy: "filter (\<lambda>w. le y w \<and> le w y) (y # ys') = y # filter (\<lambda>w. le y w \<and> le w y) ys'"
    using refl [of y] by simp
  from fy hy have "zs \<noteq> []" by auto
  then obtain z zs' where zs: "zs = z # zs'" by (cases zs) auto
  from Cons.prems(5) zs have zS: "z \<in> S" by simp
  have yz: "y = z"
  proof (cases "le y z \<and> le z y")
    case True
    with fy hy zs show ?thesis by simp
  next
    case False
    with fy hy zs have "y # filter (\<lambda>w. le y w \<and> le w y) ys' = filter (\<lambda>w. le y w \<and> le w y) zs'"
      by simp
    then have "y \<in> set (filter (\<lambda>w. le y w \<and> le w y) zs')"
      by (metis list.set_intros(1))
    then have "y \<in> set zs'" by simp
    with Cons.prems(2) zs have zy: "le z y" by simp
    from zS Cons.prems(3)
    have "filter (\<lambda>w. le z w \<and> le w z) (y # ys') = filter (\<lambda>w. le z w \<and> le w z) zs"
      by blast
    with False zs refl [of z]
    have "filter (\<lambda>w. le z w \<and> le w z) ys' = z # filter (\<lambda>w. le z w \<and> le w z) zs'"
      by auto
    then have "z \<in> set (filter (\<lambda>w. le z w \<and> le w z) ys')"
      by (metis list.set_intros(1))
    then have "z \<in> set ys'" by simp
    with Cons.prems(1) have "le y z" by simp
    with zy False show ?thesis by simp
  qed
  have tl: "\<forall>x\<in>S. filter (\<lambda>w. le x w \<and> le w x) ys' = filter (\<lambda>w. le x w \<and> le w x) zs'"
  proof
    fix x assume "x \<in> S"
    with Cons.prems(3)
    have "filter (\<lambda>w. le x w \<and> le w x) (y # ys') = filter (\<lambda>w. le x w \<and> le w x) zs"
      by blast
    with zs yz show "filter (\<lambda>w. le x w \<and> le w x) ys' = filter (\<lambda>w. le x w \<and> le w x) zs'"
      by (simp split: if_splits)
  qed
  from Cons.prems(1) have s1: "sorted_wrt le ys'" by simp
  from Cons.prems(2) zs have s2: "sorted_wrt le zs'" by simp
  from Cons.prems(4) have b1: "set ys' \<subseteq> S" by simp
  from Cons.prems(5) zs have b2: "set zs' \<subseteq> S" by simp
  from Cons.IH [OF s1 s2 tl b1 b2] yz zs show ?case by simp
qed

subsection \<open>The roster and its order\<close>

lemma getMachinesList_sort:
  "getMachinesList rt w = Array_sort (by_label rt) (registry_machines rt w)"
  by (simp add: getMachinesList_def registry_machines_def registry_document_def
        localhost_fallback_def Let_def split: option.splits parse_result.splits)

lemma by_label_le: "(by_label rt a b \<le> 0) = (localeCompare rt (label a) (label b) \<le> 0)"
  by (simp add: by_label_def)

lemma same_label_by_label:
  "(\<lambda>y. by_label rt x y \<le> 0 \<and> by_label rt y x \<le> 0) = same_label rt x"
  by (simp add: by_label_def same_label_def [abs_def])

lemma same_label_refl:
  assumes "total_preorder (localeCompare rt)"
  shows "same_label rt x x"
  using assms unfolding total_preorder_def same_label_def by blast

lemma sorted_roster:
  assumes "total_preorder (localeCompare rt)"
  shows "sorted_wrt (\<lambda>a b. localeCompare rt (label a) (label b) \<le> 0)
           (Array_sort (by_label rt) ms)"
proof -
  have "sorted_wrt (\<lambda>a b. by_label rt a b \<le> 0) (Array_sort (by_label rt) ms)"
  proof (rule sorted_Array_sort)
    show "by_label rt a b \<le> 0 \<or> by_label rt b a \<le> 0" for a b
      by (rule by_label_total [OF assms])
    show "by_label rt a c \<le> 0" if "by_label rt a b \<le> 0" "by_label rt b c \<le> 0" for a b c
      using that by (rule by_label_trans [OF assms])
  qed
  then show ?thesis by (simp add: by_label_le)
qed

lemma filter_roster:
  assumes "total_preorder (localeCompare rt)"
  shows "filter (same_label rt x) (Array_sort (by_label rt) ms) = filter (same_label rt x) ms"
proof -
  have "filter (\<lambda>y. by_label rt x y \<le> 0 \<and> by_label rt y x \<le> 0) (Array_sort (by_label rt) ms) =
        filter (\<lambda>y. by_label rt x y \<le> 0 \<and> by_label rt y x \<le> 0) ms"
  proof (rule filter_Array_sort)
    show "by_label rt a c \<le> 0" if "by_label rt a b \<le> 0" "by_label rt b c \<le> 0" for a b c
      using that by (rule by_label_trans [OF assms])
  qed
  then show ?thesis by (simp only: same_label_by_label)
qed

lemma keeps_order_roster:
  assumes "total_preorder (localeCompare rt)"
  shows "keeps_order rt ms (Array_sort (by_label rt) ms)"
  by (simp add: keeps_order_def list_all_iff filter_roster [OF assms])

lemma keeps_order_subset:
  assumes "total_preorder (localeCompare rt)" and "keeps_order rt xs ys"
  shows "set ys \<subseteq> set xs"
proof
  fix y assume y: "y \<in> set ys"
  with assms(2) have "filter (same_label rt y) ys = filter (same_label rt y) xs"
    by (simp add: keeps_order_def list_all_iff)
  moreover from y same_label_refl [OF assms(1), of y]
  have "y \<in> set (filter (same_label rt y) ys)" by simp
  ultimately have "y \<in> set (filter (same_label rt y) xs)" by simp
  then show "y \<in> set xs" by simp
qed

lemma roster_unique:
  assumes p: "total_preorder (localeCompare rt)"
      and s: "sorted_wrt (\<lambda>a b. localeCompare rt (label a) (label b) \<le> 0) ys"
      and k: "keeps_order rt ms ys"
  shows "ys = Array_sort (by_label rt) ms"
proof (rule sorted_stable_unique
         [where le = "\<lambda>a b. localeCompare rt (label a) (label b) \<le> 0" and S = "set ms"])
  show "localeCompare rt (label x) (label x) \<le> 0" for x
    using p unfolding total_preorder_def by blast
  show "sorted_wrt (\<lambda>a b. localeCompare rt (label a) (label b) \<le> 0) ys" by (rule s)
  show "sorted_wrt (\<lambda>a b. localeCompare rt (label a) (label b) \<le> 0)
          (Array_sort (by_label rt) ms)"
    by (rule sorted_roster [OF p])
  show "set ys \<subseteq> set ms" by (rule keeps_order_subset [OF p k])
  show "set (Array_sort (by_label rt) ms) \<subseteq> set ms" by (simp add: set_Array_sort)
  show "\<forall>x\<in>set ms.
          filter (\<lambda>y. localeCompare rt (label x) (label y) \<le> 0 \<and>
                      localeCompare rt (label y) (label x) \<le> 0) ys =
          filter (\<lambda>y. localeCompare rt (label x) (label y) \<le> 0 \<and>
                      localeCompare rt (label y) (label x) \<le> 0) (Array_sort (by_label rt) ms)"
  proof
    fix x assume "x \<in> set ms"
    with k have "filter (same_label rt x) ys = filter (same_label rt x) ms"
      by (simp add: keeps_order_def list_all_iff)
    with filter_roster [OF p, of x ms]
    have "filter (same_label rt x) ys = filter (same_label rt x) (Array_sort (by_label rt) ms)"
      by simp
    then show "filter (\<lambda>y. localeCompare rt (label x) (label y) \<le> 0 \<and>
                      localeCompare rt (label y) (label x) \<le> 0) ys =
          filter (\<lambda>y. localeCompare rt (label x) (label y) \<le> 0 \<and>
                      localeCompare rt (label y) (label x) \<le> 0) (Array_sort (by_label rt) ms)"
      by (simp add: same_label_def [abs_def])
  qed
qed

text \<open>
  C8. Two reads of the registry that find the same stored value and the same host name
  (whatever else differs in the two window states) return equal rosters. The roster is
  in ascending order of the labels under the locale's comparison, and it keeps the
  registry order among entries of the same label; it is the only arrangement of the
  registry's machines with these two properties, so that the result does not depend
  on how the stable sort is carried out. All this provided the comparison is
  consistent.
\<close>

theorem roster_read_twice:
  assumes "total_preorder (localeCompare rt)"
      and "sessionStorage_item w2 = sessionStorage_item w1"
      and "location_hostname w2 = location_hostname w1"
  shows "getMachinesList rt w2 = getMachinesList rt w1 \<and>
         sorted_wrt (\<lambda>a b. localeCompare rt (label a) (label b) \<le> 0) (getMachinesList rt w1) \<and>
         keeps_order rt (registry_machines rt w1) (getMachinesList rt w1) \<and>
         (\<forall>ys. sorted_wrt (\<lambda>a b. localeCompare rt (label a) (label b) \<le> 0) ys \<and>
               keeps_order rt (registry_machines rt w1) ys \<longrightarrow>
               ys = getMachinesList rt w1)"
proof -
  note g = getMachinesList_sort [of rt w1]
  have e: "getMachinesList rt w2 = getMachinesList rt w1"
    by (rule getMachinesList_same_input [OF assms(2,3)])
  have s: "sorted_wrt (\<lambda>a b. localeCompare rt (label a) (label b) \<le> 0) (getMachinesList rt w1)"
    unfolding g by (rule sorted_roster [OF assms(1)])
  have k: "keeps_order rt (registry_machines rt w1) (getMachinesList rt w1)"
    unfolding g by (rule keeps_order_roster [OF assms(1)])
  have u: "ys = getMachinesList rt w1"
    if "sorted_wrt (\<lambda>a b. localeCompare rt (label a) (label b) \<le> 0) ys"
       "keeps_order rt (registry_machines rt w1) ys" for ys
    unfolding g using that by (rule roster_unique [OF assms(1)])
  from e s k u show ?thesis by blast
qed

subsection \<open>The code-unit order\<close>

lemma codeunit_compare_total: "codeunit_compare a b \<le> 0 \<or> codeunit_compare b a \<le> 0"
  by (induction a b rule: codeunit_compare.induct) auto

lemma codeunit_compare_trans:
  "codeunit_compare a b \<le> 0 \<Longrightarrow> codeunit_compare b c \<le> 0 \<Longrightarrow> codeunit_compare a c \<le> 0"
proof (induction a b arbitrary: c rule: codeunit_compare.induct)
  case 1
  then show ?case by simp
next
  case (2 y ys)
  then show ?case by (cases c) simp_all
next
  case (3 x xs)
  then show ?case by simp
next
  case (4 x xs y ys)
  show ?case
  proof (cases c)
    case Nil
    with "4.prems"(2) show ?thesis by simp
  next
    case (Cons z zs)
    have xy: "codeunit x \<le> codeunit y"
      using "4.prems"(1) by (simp split: if_splits)
    have yz: "codeunit y \<le> codeunit z"
      using "4.prems"(2) Cons by (simp split: if_splits)
    show ?thesis
    proof (cases "codeunit x < codeunit z")
      case True
      with Cons show ?thesis by simp
    next
      case False
      with xy yz have e1: "codeunit x = codeunit y" and e2: "codeunit y = codeunit z"
        by simp_all
      from "4.prems"(1) e1 have a: "codeunit_compare xs ys \<le> 0" by simp
      from "4.prems"(2) e2 Cons have b: "codeunit_compare ys zs \<le> 0" by simp
      from e1 have n1: "\<not> codeunit x < codeunit y" and n2: "\<not> codeunit y < codeunit x"
        by simp_all
      from "4.IH" [OF n1 n2 a b] have "codeunit_compare xs zs \<le> 0" .
      with e1 e2 Cons show ?thesis by simp
    qed
  qed
qed

lemma codeunit_compare_preorder: "total_preorder codeunit_compare"
  unfolding total_preorder_def
  using codeunit_compare_total codeunit_compare_trans by blast

text \<open>
  Two window states holding the same registry, read under the code-unit order: the
  host labelled \<open>app\<close> comes first, and the two hosts labelled \<open>db\<close> follow in
  registry order.
\<close>

theorem roster_read_twice_witness:
  "getMachinesList (example_runtime tied_doc) later_window = tied_roster \<and>
   getMachinesList (example_runtime tied_doc) example_window = tied_roster"
proof -
  let ?rt = "example_runtime tied_doc"
  have p: "total_preorder (localeCompare ?rt)"
    using codeunit_compare_preorder by (simp add: example_runtime_def)
  have i: "sessionStorage_item later_window = sessionStorage_item example_window"
    by (simp add: later_window_def example_window_def)
  have h: "location_hostname later_window = location_hostname example_window"
    by (simp add: later_window_def example_window_def)
  have m: "registry_machines ?rt example_window =
     [\<lparr> key = ''b-host'', address = ''b-host'', label = ''db'', user = None, color = None,
        state = None, visible = None, avatar = None \<rparr>,
      \<lparr> key = ''a-host'', address = ''a-host'', label = ''db'', user = None, color = None,
        state = None, visible = None, avatar = None \<rparr>,
      \<lparr> key = ''c-host'', address = ''c-host'', label = ''app'', user = None, color = None,
        state = None, visible = None, avatar = None \<rparr>]"
    by (simp add: registry_machines_def registry_document_def example_runtime_def
        example_window_def tied_doc_def visible_machines_def new_Set_def Object_keys_def
        merged_machine_def table_get_def no_properties_def pick_def pick_opt_def
        with_default_label_def Let_def)
  have s: "sorted_wrt (\<lambda>a b. localeCompare ?rt (label a) (label b) \<le> 0) tied_roster"
    by (simp add: tied_roster_def example_runtime_def codeunit_def)
  have k: "keeps_order ?rt (registry_machines ?rt example_window) tied_roster"
    unfolding m
    by (simp add: keeps_order_def same_label_def tied_roster_def example_runtime_def codeunit_def)
  from roster_read_twice [OF p i h] s k
  show ?thesis by simp
qed

section \<open>Properties of the asynchronous operations\<close>

subsection \<open>Update check\<close>

lemma await_updates_pending:
  "fst (await_updates evs acc subs) = Pending \<longleftrightarrow> \<not> list_ex is_terminal evs"
  by (induction evs acc subs rule: await_updates.induct) simp_all

lemma await_updates_resolved:
  "(\<exists>us. fst (await_updates evs acc subs) = Resolved us) \<longleftrightarrow>
   is_finished (find is_terminal evs)"
  by (induction evs acc subs rule: await_updates.induct) simp_all

lemma security_count_le: "length (filter P us) \<le> length us"
  by simp

lemma check_failed_fields:
  "\<not> loading (check_failed env e) \<and> lastChecked (check_failed env e) \<noteq> None \<and>
   error (check_failed env e) \<noteq> None \<and>
   total_updates (check_failed env e) = 0 \<and> security (check_failed env e) = 0"
  by (simp add: check_failed_def split: option.splits)

lemma open_transaction_pending:
  "open_transaction env r = Pending \<Longrightarrow> \<not> remote_answers r"
  by (auto simp: open_transaction_def remote_answers_def
           split: promise.splits list.splits if_splits)

lemma open_transaction_rejected:
  "open_transaction env r = Rejected e \<Longrightarrow> remote_answers r \<and> \<not> remote_finishes r"
  by (auto simp: open_transaction_def remote_answers_def remote_finishes_def
           split: promise.splits list.splits if_splits)

lemma open_transaction_resolved:
  "open_transaction env r = Resolved p \<Longrightarrow>
   remote_answers r = list_ex is_terminal (signals r) \<and>
   remote_finishes r = is_finished (find is_terminal (signals r))"
  by (auto simp: open_transaction_def remote_answers_def remote_finishes_def
           split: promise.splits list.splits if_splits)

text \<open>
  C7. In every UpdateInfo that getUpdatesForHost resolves to, whatever the host and the
  signals, the security count is a non-negative integer not above the total count.
\<close>

theorem updates_security_le_total:
  assumes "fst (getUpdatesForHost env dbus host) = Resolved info"
  shows "0 \<le> security info \<and> security info \<le> total_updates info"
proof (cases "open_transaction env (dbus (dbus_options host))")
  case Pending
  with assms show ?thesis by (simp add: getUpdatesForHost_def)
next
  case (Rejected e)
  with assms have "info = check_failed env e" by (simp add: getUpdatesForHost_def)
  then show ?thesis by (simp add: check_failed_fields)
next
  case (Resolved p)
  obtain out subs where aw:
    "await_updates (signals (dbus (dbus_options host))) [] [Package_m, Finished_m, ErrorCode_m]
       = (out, subs)"
    by (cases "await_updates (signals (dbus (dbus_options host))) []
                 [Package_m, Finished_m, ErrorCode_m]") simp
  show ?thesis
  proof (cases out)
    case Pending
    with assms Resolved aw show ?thesis by (simp add: getUpdatesForHost_def)
  next
    case (Rejected e)
    with assms Resolved aw have "info = check_failed env e"
      by (simp add: getUpdatesForHost_def)
    then show ?thesis by (simp add: check_failed_fields)
  next
    case r: (Resolved us)
    with assms Resolved aw have
      "info = \<lparr> total_updates = int (length us),
                security = int (length (filter (\<lambda>u. snd u = ''security'') us)),
                loading = False, error = None, lastChecked = Some (now env) \<rparr>"
      by (simp add: getUpdatesForHost_def)
    then show ?thesis by simp
  qed
qed

text \<open>
  Three Package signals, one with the security info code 8: total 3, security 1.
\<close>

theorem updates_security_le_total_witness:
  "fst (getUpdatesForHost example_env (example_dbus three_updates) ''10.0.0.5'') =
     Resolved \<lparr> total_updates = 3, security = 1, loading = False, error = None,
                lastChecked = Some 1000 \<rparr> \<and>
   (0::int) \<le> 1 \<and> (1::int) \<le> 3"
proof -
  have run: "fst (getUpdatesForHost example_env (example_dbus three_updates) ''10.0.0.5'') =
     Resolved \<lparr> total_updates = 3, security = 1, loading = False, error = None,
                lastChecked = Some 1000 \<rparr>"
    by (simp add: getUpdatesForHost_def open_transaction_def ready_remote_def example_dbus_def three_updates_def
          example_env_def package_name_def)
  from updates_security_le_total [OF run] run show ?thesis by simp
qed

text \<open>
  C10 (as amended). getUpdatesForHost never rejects. It stays pending exactly when the
  remote service does not answer, and resolves otherwise. The UpdateInfo it resolves to
  has \<open>loading\<close> false and a \<open>lastChecked\<close> timestamp, and its \<open>error\<close> is null
  exactly when the transaction ran to its Finished signal: every failure carries a
  message.
\<close>

theorem check_settles:
  "(case fst (getUpdatesForHost env dbus host) of
      Pending \<Rightarrow> \<not> remote_answers (dbus (dbus_options host))
    | Rejected e \<Rightarrow> False
    | Resolved info \<Rightarrow>
        remote_answers (dbus (dbus_options host)) \<and>
        \<not> loading info \<and> lastChecked info \<noteq> None \<and>
        (error info = None) = remote_finishes (dbus (dbus_options host)))"
proof (cases "open_transaction env (dbus (dbus_options host))")
  case Pending
  then show ?thesis
    by (simp add: getUpdatesForHost_def open_transaction_pending)
next
  case (Rejected e)
  then show ?thesis
    using open_transaction_rejected [OF Rejected]
    by (simp add: getUpdatesForHost_def check_failed_fields)
next
  case (Resolved p)
  let ?r = "dbus (dbus_options host)"
  obtain out subs where aw:
    "await_updates (signals ?r) [] [Package_m, Finished_m, ErrorCode_m] = (out, subs)"
    by (cases "await_updates (signals ?r) [] [Package_m, Finished_m, ErrorCode_m]") simp
  note ot = open_transaction_resolved [OF Resolved]
  have pend: "(out = Pending) = (\<not> list_ex is_terminal (signals ?r))"
    using await_updates_pending [of "signals ?r" "[]" "[Package_m, Finished_m, ErrorCode_m]"] aw
    by simp
  have res: "(\<exists>us. out = Resolved us) = is_finished (find is_terminal (signals ?r))"
    using await_updates_resolved [of "signals ?r" "[]" "[Package_m, Finished_m, ErrorCode_m]"] aw
    by simp
  show ?thesis
  proof (cases out)
    case Pending
    with Resolved aw pend ot show ?thesis by (simp add: getUpdatesForHost_def)
  next
    case (Rejected e)
    with res have "\<not> is_finished (find is_terminal (signals ?r))" by simp
    moreover from Rejected pend have "list_ex is_terminal (signals ?r)" by simp
    ultimately show ?thesis
      using Resolved Rejected aw ot by (simp add: getUpdatesForHost_def check_failed_fields)
  next
    case r: (Resolved us)
    with res have "is_finished (find is_terminal (signals ?r))" by blast
    moreover from r pend have "list_ex is_terminal (signals ?r)" by simp
    ultimately show ?thesis
      using Resolved r aw ot by (simp add: getUpdatesForHost_def)
  qed
qed

text \<open>
  A service whose \<open>GetUpdates\<close> call is rejected with ServiceUnknown.
\<close>

theorem check_settles_witness:
  "remote_answers (ready_remote [CallRejected (Error (Some ''ServiceUnknown''))]) \<and>
   \<not> remote_finishes (ready_remote [CallRejected (Error (Some ''ServiceUnknown''))]) \<and>
   fst (getUpdatesForHost example_env
          (example_dbus [CallRejected (Error (Some ''ServiceUnknown''))]) ''10.0.0.5'') =
     Resolved \<lparr> total_updates = 0, security = 0, loading = False,
                error = Some ''PackageKit not available'', lastChecked = Some 1000 \<rparr>"
proof -
  have run: "fst (getUpdatesForHost example_env
          (example_dbus [CallRejected (Error (Some ''ServiceUnknown''))]) ''10.0.0.5'') =
     Resolved \<lparr> total_updates = 0, security = 0, loading = False,
                error = Some ''PackageKit not available'', lastChecked = Some 1000 \<rparr>"
    by (simp add: getUpdatesForHost_def open_transaction_def ready_remote_def example_dbus_def
          example_env_def check_failed_def)
  from check_settles [where env = example_env and host = "''10.0.0.5''"
         and dbus = "example_dbus [CallRejected (Error (Some ''ServiceUnknown''))]"]
       run
  show ?thesis by (simp add: example_dbus_def)
qed

text \<open>
  C10 as stated fails: when the transaction is created and never emits Finished or
  ErrorCode, and the \<open>GetUpdates\<close> call is not rejected, the function does not
  resolve; there is no timeout in it.
\<close>

theorem check_never_settles_counterexample:
  "fst (getUpdatesForHost example_env (example_dbus []) ''10.0.0.5'') = Pending"
  by (simp add: getUpdatesForHost_def open_transaction_def ready_remote_def example_dbus_def example_env_def)

subsection \<open>Subscriptions\<close>

text \<open>
  C2 fails on the code. After a successful getUpdatesForHost the ErrorCode subscription
  is still registered; after a rejected \<open>GetUpdates\<close> call all three are; and
  installUpdatesOnHost and refreshPackageCache, which never call \<open>remove\<close>, return
  with every subscription they made still registered.
\<close>

theorem subscriptions_left_registered:
  "snd (getUpdatesForHost example_env (example_dbus three_updates) ''10.0.0.5'')
     = [ErrorCode_m] \<and>
   snd (getUpdatesForHost example_env
          (example_dbus [CallRejected (Error (Some ''ServiceUnknown''))]) ''10.0.0.5'')
     = [Package_m, Finished_m, ErrorCode_m] \<and>
   snd (snd (installUpdatesOnHost example_env (example_dbus [Finished 1])
               ''10.0.0.5'' True False))
     = [Percentage_m, ItemProgress_m, Finished_m, ErrorCode_m] \<and>
   snd (refreshPackageCache example_env (example_dbus [Finished 1]) ''10.0.0.5'')
     = [Finished_m, ErrorCode_m]"
  by (simp add: getUpdatesForHost_def installUpdatesOnHost_def refreshPackageCache_def
        open_transaction_def ready_remote_def example_dbus_def three_updates_def example_env_def)

subsection \<open>Progress\<close>

lemma await_install_percents:
  "map fst (snd (await_install env True evs acc)) =
     map fst acc @ filter (\<lambda>percent. percent \<le> 100) (progress_percents evs)"
  by (induction env "True" evs acc rule: await_install.induct) simp_all

lemma await_install_silent:
  "snd (await_install env False evs acc) = acc"
  by (induction env "False" evs acc rule: await_install.induct) simp_all

lemma installUpdatesOnHost_percents:
  "map fst (fst (snd (installUpdatesOnHost env dbus host onProgress securityOnly))) =
     (case open_transaction env (dbus (dbus_options host)) of
        Resolved p \<Rightarrow>
          if onProgress
          then filter (\<lambda>percent. percent \<le> 100)
                 (progress_percents (signals (dbus (dbus_options host))))
          else []
      | _ \<Rightarrow> [])"
proof (cases "open_transaction env (dbus (dbus_options host))")
  case Pending
  then show ?thesis by (simp add: installUpdatesOnHost_def)
next
  case (Rejected e)
  then show ?thesis by (simp add: installUpdatesOnHost_def)
next
  case (Resolved p)
  let ?evs = "signals (dbus (dbus_options host))"
  obtain out cs where aw: "await_install env onProgress ?evs [] = (out, cs)"
    by (cases "await_install env onProgress ?evs []") simp
  have cs: "map fst cs =
      (if onProgress then filter (\<lambda>percent. percent \<le> 100) (progress_percents ?evs) else [])"
  proof (cases onProgress)
    case True
    with aw await_install_percents [of env ?evs "[]"] show ?thesis by simp
  next
    case False
    with aw await_install_silent [of env ?evs "[]"] show ?thesis by simp
  qed
  from Resolved aw have "fst (snd (installUpdatesOnHost env dbus host onProgress securityOnly)) = cs"
    by (cases out) (simp_all add: installUpdatesOnHost_def Let_def)
  with cs Resolved show ?thesis by simp
qed

text \<open>
  C6 (as amended). The progress callback is invoked only with percentages of at most
  100: it receives, in order, exactly the percentages not above 100 of the Percentage
  and ItemProgress signals that arrive before the promise settles. A percentage above
  100 is ignored. There is no lower bound.
\<close>

theorem progress_at_most_100:
  "list_all (\<lambda>percent. percent \<le> 100)
     (map fst (fst (snd (installUpdatesOnHost env dbus host onProgress securityOnly)))) \<and>
   map fst (fst (snd (installUpdatesOnHost env dbus host onProgress securityOnly))) =
     (case open_transaction env (dbus (dbus_options host)) of
        Resolved p \<Rightarrow>
          if onProgress
          then filter (\<lambda>percent. percent \<le> 100)
                 (progress_percents (signals (dbus (dbus_options host))))
          else []
      | _ \<Rightarrow> [])"
proof -
  have "list_all (\<lambda>percent. percent \<le> 100)
     (map fst (fst (snd (installUpdatesOnHost env dbus host onProgress securityOnly))))"
    unfolding installUpdatesOnHost_percents
    by (simp add: list_all_iff split: promise.splits)
  then show ?thesis using installUpdatesOnHost_percents by blast
qed

text \<open>
  Percentages 10, 101, 101 and 100 arrive; the callback sees 10 and 100.
\<close>

theorem progress_at_most_100_witness:
  "map fst (fst (snd (installUpdatesOnHost example_env (example_dbus mixed_progress)
                        ''10.0.0.5'' True True))) = [10, 100]"
  using progress_at_most_100 [where env = example_env and host = "''10.0.0.5''"
          and dbus = "example_dbus mixed_progress" and onProgress = True
          and securityOnly = True]
  by (simp add: open_transaction_def ready_remote_def example_dbus_def mixed_progress_def example_env_def)

text \<open>
  C6 as stated fails: a Percentage signal carrying \<open>- 5\<close> passes the test
  \<open>percent <= 100\<close> and reaches the callback.
\<close>

theorem negative_progress_counterexample:
  "\<not> list_all percent_in_range
       (map fst (fst (snd (installUpdatesOnHost example_env
                             (example_dbus negative_progress) ''10.0.0.5'' True False))))"
  by (simp add: installUpdatesOnHost_def open_transaction_def ready_remote_def example_dbus_def
        negative_progress_def example_env_def percent_in_range_def)

subsection \<open>Connection probe\<close>

text \<open>
  C5 fails on the code. For a remote host whose channel raises no close event within
  10 seconds, the timer calls \<open>channel.close()\<close> before \<open>resolve("failed")\<close>; the
  close event that \<open>close\<close> raises, without a problem, runs the listener, which
  resolves the promise to \<open>connected\<close> first.
\<close>

theorem timeout_resolves_connected:
  "checkMachineConnection silent_channel ''10.0.0.5'' =
     (Resolved ''connected'', [ChannelOpen ''10.0.0.5'', ChannelClose])"
  by (simp add: checkMachineConnection_def silent_channel_def timer_callback_def
        close_listener_def first_resolve_def)

lemma no_state_property: "string_property s ''state'' = JUndefined"
  by (simp add: string_property_def canonical_index_def is_digit_def)

lemma no_hostname_property: "string_property s ''hostname'' = JUndefined"
  by (simp add: string_property_def canonical_index_def is_digit_def)

text \<open>
  C9. checkMachineConnection resolves to one of the two strings \<open>connected\<close> and
  \<open>failed\<close>, and destructuring that value as \<open>{ state, hostname }\<close>, as
  loadMachines and refreshMachine do, yields \<open>undefined\<close> for both names.
\<close>

theorem probe_result_plain_string:
  "\<exists>r. fst (checkMachineConnection chan host) = Resolved r \<and>
       (r = ''connected'' \<or> r = ''failed'') \<and>
       destructure_state_hostname r = (JUndefined, JUndefined)"
  by (simp add: checkMachineConnection_def timer_callback_def close_listener_def
        first_resolve_def destructure_state_hostname_def no_state_property
        no_hostname_property split: channel_behaviour.splits close_effect.splits)

text \<open>
  A reachable remote host: the probe resolves to the string \<open>connected\<close>.
\<close>

theorem probe_result_plain_string_witness:
  "fst (checkMachineConnection clean_channel ''10.0.0.5'') = Resolved ''connected'' \<and>
   destructure_state_hostname ''connected'' = (JUndefined, JUndefined)"
  using probe_result_plain_string [of clean_channel "''10.0.0.5''"]
  by (simp add: checkMachineConnection_def clean_channel_def close_listener_def
        first_resolve_def destructure_state_hostname_def no_state_property
        no_hostname_property)

section \<open>Properties of the dashboard operations\<close>

subsection \<open>State updaters\<close>

lemma api_log_setMachines_at [simp]: "api_log (setMachines_at h f st) = api_log st"
  by (simp add: setMachines_at_def)

lemma api_log_addAlert [simp]: "api_log (addAlert v t st) = api_log st"
  by (simp add: addAlert_def)

lemma api_log_log_call [simp]: "api_log (log_call c st) = api_log st @ [c]"
  by (simp add: log_call_def)

lemma machines_addAlert [simp]: "machines (addAlert v t st) = machines st"
  by (simp add: addAlert_def)

lemma machines_log_call [simp]: "machines (log_call c st) = machines st"
  by (simp add: log_call_def)

lemma alerts_setMachines_at [simp]: "alerts (setMachines_at h f st) = alerts st"
  by (simp add: setMachines_at_def)

lemma alerts_log_call [simp]: "alerts (log_call c st) = alerts st"
  by (simp add: log_call_def)

lemma frame_setMachines_at:
  assumes "\<And>m. key (f m) = key m" and "h \<in> K"
  shows "frame K (machines (setMachines_at h f st)) = frame K (machines st)"
  using assms by (simp add: frame_def setMachines_at_def)

lemma api_log_run_progress [simp]: "api_log (run_progress host cs st) = api_log st"
  by (induction cs arbitrary: st) (simp_all add: run_progress_def)

lemma alerts_run_progress [simp]: "alerts (run_progress host cs st) = alerts st"
  by (induction cs arbitrary: st) (simp_all add: run_progress_def)

lemma frame_run_progress:
  "host \<in> K \<Longrightarrow> frame K (machines (run_progress host cs st)) = frame K (machines st)"
proof (induction cs arbitrary: st)
  case Nil
  show ?case by (simp add: run_progress_def)
next
  case (Cons c cs)
  have "frame K (machines (run_progress host (c # cs) st)) =
        frame K (machines (run_progress host cs
          (setMachines_at host (\<lambda>m. m\<lparr> updateProgress := Some c \<rparr>) st)))"
    by (simp add: run_progress_def)
  also have "\<dots> = frame K (machines (setMachines_at host (\<lambda>m. m\<lparr> updateProgress := Some c \<rparr>) st))"
    by (rule Cons.IH [OF Cons.prems])
  also have "\<dots> = frame K (machines st)"
    by (rule frame_setMachines_at) (simp_all add: Cons.prems)
  finally show ?case .
qed

subsection \<open>refreshMachine\<close>

lemma api_log_refresh_catch [simp]: "api_log (refresh_catch env host e st) = api_log st"
  by (simp add: refresh_catch_def)


lemma refresh_updates_not_rejected: "fst (refresh_updates env world host st) \<noteq> Rejected e"
  by (simp add: refresh_updates_def Let_def split: promise.splits)


lemma api_log_refresh_updates:
  "\<exists>L. api_log (snd (refresh_updates env world host st)) = api_log st @ L \<and>
       list_all refresh_call L \<and> L \<noteq> []"
  by (simp add: refresh_updates_def Let_def split: promise.splits)

lemma refreshMachine_not_rejected: "fst (refreshMachine env world snapshot host st) \<noteq> Rejected e"
  by (simp add: refreshMachine_def Let_def refresh_updates_not_rejected
           split: option.splits promise.splits prod.splits)


lemma api_log_refreshMachine:
  "\<exists>L. api_log (snd (refreshMachine env world snapshot host st)) = api_log st @ L \<and>
       list_all refresh_call L \<and> L \<noteq> []"
proof -
  have ru: "\<exists>L. api_log (snd (refresh_updates env world host s)) = api_log st @ L \<and>
       list_all refresh_call L \<and> L \<noteq> []"
    if "\<exists>L0. api_log s = api_log st @ L0 \<and> list_all refresh_call L0" for s
  proof -
    from that obtain L0 where l0: "api_log s = api_log st @ L0" "list_all refresh_call L0"
      by blast
    from api_log_refresh_updates [of env world host s] obtain L1 where
      l1: "api_log (snd (refresh_updates env world host s)) = api_log s @ L1"
          "list_all refresh_call L1" "L1 \<noteq> []" by blast
    from l0 l1 have "api_log (snd (refresh_updates env world host s)) = api_log st @ (L0 @ L1)
       \<and> list_all refresh_call (L0 @ L1) \<and> L0 @ L1 \<noteq> []" by simp
    then show ?thesis by blast
  qed
  show ?thesis
    unfolding refreshMachine_def Let_def
    by (auto split: option.splits promise.splits prod.splits intro!: ru)
qed

subsection \<open>The end of updateMachine\<close>

lemma api_log_update_finally [simp]:
  "api_log (update_finally host st) = api_log st @ [FlagsCleared host]"
  by (simp add: update_finally_def)

lemma api_log_update_catch [simp]:
  "api_log (update_catch env host e st) = api_log st @ [FlagsCleared host]"
  by (simp add: update_catch_def)

lemma alerts_update_catch [simp]:
  "alerts (update_catch env host e st) =
     alerts st @ [(''danger'',
        format env (gettext env ''Failed to update $0: $1'') [Some host, message e])]"
  by (simp add: update_catch_def update_finally_def addAlert_def log_call_def setMachines_at_def)



lemma cleared_map:
  "list_all (\<lambda>m. key m \<notin> set [host] \<or> (updating m = Some False \<and> updateProgress m = None))
     (map (\<lambda>m. if key m = host then m\<lparr> updating := Some False, updateProgress := None \<rparr> else m) ms)"
  by (induction ms) simp_all

lemma cleared_update_finally: "cleared [host] (machines (update_finally host st))"
  unfolding cleared_def update_finally_def setMachines_at_def
  using cleared_map [of host "machines st"] by simp

lemma cleared_update_catch: "cleared [host] (machines (update_catch env host e st))"
  by (simp add: update_catch_def cleared_update_finally)

lemma api_log_success_alerts [simp]: "api_log (success_alerts env host result st) = api_log st"
  by (simp add: success_alerts_def Let_def)

lemma machines_success_alerts [simp]: "machines (success_alerts env host result st) = machines st"
  by (simp add: success_alerts_def Let_def)

text \<open>What update_succeeded does, by the outcome of the refresh.\<close>

lemma update_succeeded_cases:
  "\<exists>st3 o3. refreshMachine env world snapshot host (success_alerts env host result st) = (o3, st3) \<and>
      ((o3 = Pending \<and> update_succeeded env world snapshot host result st = (Pending, st3)) \<or>
       (o3 = Resolved () \<and>
        update_succeeded env world snapshot host result st = (Resolved (), update_finally host st3)))"
proof -
  obtain o3 st3 where
    r: "refreshMachine env world snapshot host (success_alerts env host result st) = (o3, st3)"
    by (cases "refreshMachine env world snapshot host (success_alerts env host result st)") simp
  have nr: "o3 \<noteq> Rejected e" for e
    using refreshMachine_not_rejected
            [of env world snapshot host "success_alerts env host result st" e] r
    by simp
  show ?thesis
  proof (cases o3)
    case Pending
    with r show ?thesis by (simp add: update_succeeded_def)
  next
    case (Rejected e)
    with nr show ?thesis by blast
  next
    case (Resolved x)
    with r show ?thesis by (simp add: update_succeeded_def)
  qed
qed

lemma update_succeeded_not_rejected:
  "fst (update_succeeded env world snapshot host result st) \<noteq> Rejected e"
  using update_succeeded_cases [where env = env and world = world and snapshot = snapshot
         and host = host and result = result and st = st]
  by auto


lemma api_log_update_succeeded:
  "\<exists>L. list_all refresh_call L \<and> L \<noteq> [] \<and>
       api_log (snd (update_succeeded env world snapshot host result st)) =
         (if fst (update_succeeded env world snapshot host result st) = Pending
          then api_log st @ L else api_log st @ L @ [FlagsCleared host])"
proof -
  from update_succeeded_cases [where env = env and world = world and snapshot = snapshot
         and host = host and result = result and st = st]
  obtain st3 o3 where
    r: "refreshMachine env world snapshot host (success_alerts env host result st) = (o3, st3)" and
    c: "update_succeeded env world snapshot host result st = (Pending, st3) \<or>
        update_succeeded env world snapshot host result st = (Resolved (), update_finally host st3)"
    by blast
  from api_log_refreshMachine [of env world snapshot host "success_alerts env host result st"] r
  obtain L where L: "api_log st3 = api_log st @ L" "list_all refresh_call L" "L \<noteq> []" by auto
  from c show ?thesis
  proof
    assume "update_succeeded env world snapshot host result st = (Pending, st3)"
    with L show ?thesis by (intro exI [of _ L]) simp
  next
    assume "update_succeeded env world snapshot host result st = (Resolved (), update_finally host st3)"
    with L show ?thesis by (intro exI [of _ L]) simp
  qed
qed

lemma cleared_update_succeeded:
  "fst (update_succeeded env world snapshot host result st) = Resolved u \<Longrightarrow>
   cleared [host] (machines (snd (update_succeeded env world snapshot host result st)))"
  using update_succeeded_cases [where env = env and world = world and snapshot = snapshot
         and host = host and result = result and st = st]
  by (auto simp: cleared_update_finally)

subsection \<open>From the settled install on\<close>

lemma update_settled_not_rejected:
  "fst (update_settled env world snapshot host outcome st) \<noteq> Rejected e"
  by (cases outcome) (simp_all add: update_settled_def Let_def update_succeeded_not_rejected)

lemma update_settled_pending_iff:
  "fst (update_settled env world snapshot host Pending st) = Pending"
  by (simp add: update_settled_def)


lemma cleared_update_settled:
  "fst (update_settled env world snapshot host outcome st) = Resolved u \<Longrightarrow>
   cleared [host] (machines (snd (update_settled env world snapshot host outcome st)))"
  by (cases outcome)
     (auto simp: update_settled_def Let_def cleared_update_succeeded cleared_update_catch
           split: if_splits)

text \<open>The record of calls after update_settled, by what happened.\<close>

lemma api_log_update_settled_success:
  assumes "success result"
  shows "(case fst (update_settled env world snapshot host (Resolved result) st) of
      Pending \<Rightarrow>
        (\<exists>L. list_all refresh_call L \<and> L \<noteq> [] \<and>
             api_log (snd (update_settled env world snapshot host (Resolved result) st)) =
               api_log st @ InstallSettled host # L)
    | Rejected e \<Rightarrow> False
    | Resolved u \<Rightarrow>
        (\<exists>L. list_all refresh_call L \<and> L \<noteq> [] \<and>
             api_log (snd (update_settled env world snapshot host (Resolved result) st)) =
               api_log st @ InstallSettled host # L @ [FlagsCleared host]))"
proof -
  let ?st4 = "log_call (InstallSettled host) st"
  let ?us = "update_succeeded env world snapshot host result ?st4"
  from assms have eq: "update_settled env world snapshot host (Resolved result) st = ?us"
    by (simp add: update_settled_def Let_def)
  from api_log_update_succeeded [where env = env and world = world and snapshot = snapshot
         and host = host and result = result and st = ?st4]
  obtain L where L: "list_all refresh_call L" "L \<noteq> []"
    "api_log (snd ?us) =
       (if fst ?us = Pending then api_log ?st4 @ L else api_log ?st4 @ L @ [FlagsCleared host])"
    by blast
  show ?thesis
  proof (cases "fst ?us")
    case Pending
    with L have "list_all refresh_call L \<and> L \<noteq> [] \<and>
        api_log (snd ?us) = api_log st @ InstallSettled host # L" by simp
    then have "\<exists>L. list_all refresh_call L \<and> L \<noteq> [] \<and>
        api_log (snd ?us) = api_log st @ InstallSettled host # L" by blast
    with Pending show ?thesis unfolding eq by simp
  next
    case (Rejected e)
    with update_succeeded_not_rejected [where env = env and world = world
           and snapshot = snapshot and host = host and result = result and st = ?st4 and e = e]
    show ?thesis by simp
  next
    case r: (Resolved u)
    with L have "list_all refresh_call L \<and> L \<noteq> [] \<and>
        api_log (snd ?us) = api_log st @ InstallSettled host # L @ [FlagsCleared host]"
      by simp
    then have "\<exists>L. list_all refresh_call L \<and> L \<noteq> [] \<and>
        api_log (snd ?us) = api_log st @ InstallSettled host # L @ [FlagsCleared host]"
      by blast
    with r show ?thesis unfolding eq by simp
  qed
qed

lemma api_log_update_settled:
  "(case fst (update_settled env world snapshot host outcome st) of
      Pending \<Rightarrow>
        (outcome = Pending \<and>
         api_log (snd (update_settled env world snapshot host outcome st)) = api_log st) \<or>
        (install_succeeded outcome \<and>
         (\<exists>L. list_all refresh_call L \<and> L \<noteq> [] \<and>
              api_log (snd (update_settled env world snapshot host outcome st)) =
                api_log st @ InstallSettled host # L))
    | Rejected e \<Rightarrow> False
    | Resolved u \<Rightarrow>
        (\<exists>L. list_all refresh_call L \<and> (L = []) = (\<not> install_succeeded outcome) \<and>
             api_log (snd (update_settled env world snapshot host outcome st)) =
               api_log st @ InstallSettled host # L @ [FlagsCleared host]))"
proof (cases outcome)
  case Pending
  then show ?thesis by (simp add: update_settled_def)
next
  case (Rejected e)
  then show ?thesis by (simp add: update_settled_def)
next
  case (Resolved result)
  show ?thesis
  proof (cases "success result")
    case False
    with Resolved show ?thesis by (simp add: update_settled_def Let_def)
  next
    case True
    from api_log_update_settled_success [OF True, where env = env and world = world
           and snapshot = snapshot and host = host and st = st]
    show ?thesis
      unfolding Resolved using True by (auto split: promise.splits)
  qed
qed

subsection \<open>updateMachine as a whole\<close>

text \<open>updateMachine in terms of the state in which the install returns.\<close>

lemma updateMachine_unfold:
  "\<exists>st3. api_log st3 = api_log st @ [InstallCalled host securityOnly] \<and>
         frame {host} (machines st3) = frame {host} (machines st) \<and>
         alerts st3 = alerts st \<and>
         updateMachine env world snapshot host securityOnly st =
           update_settled env world snapshot host
             (fst (installUpdatesOnHost env (install_dbus world) host True securityOnly)) st3"
proof -
  obtain outcome cs subs where
    i: "installUpdatesOnHost env (install_dbus world) host True securityOnly = (outcome, cs, subs)"
    by (cases "installUpdatesOnHost env (install_dbus world) host True securityOnly") auto
  define st1 where "st1 = setMachines_at host
      (\<lambda>m. m\<lparr> updating := Some True,
                updateProgress := Some (0, gettext env ''Starting update...'') \<rparr>) st"
  define st3 where "st3 = run_progress host cs (log_call (InstallCalled host securityOnly) st1)"
  have l: "api_log st3 = api_log st @ [InstallCalled host securityOnly]"
    by (simp add: st3_def st1_def)
  have a: "alerts st3 = alerts st"
    by (simp add: st3_def st1_def)
  have "frame {host} (machines st3) = frame {host} (machines st1)"
    by (simp add: st3_def frame_run_progress)
  also have "\<dots> = frame {host} (machines st)"
    unfolding st1_def by (rule frame_setMachines_at) simp_all
  finally have f: "frame {host} (machines st3) = frame {host} (machines st)" .
  have u: "updateMachine env world snapshot host securityOnly st =
       update_settled env world snapshot host outcome st3"
    by (simp add: updateMachine_def i st3_def st1_def Let_def)
  show ?thesis
    by (rule exI [of _ st3]) (simp add: l a f u i)
qed

lemma updateMachine_not_rejected:
  "fst (updateMachine env world snapshot host securityOnly st) \<noteq> Rejected e"
  using updateMachine_unfold [where env = env and world = world and snapshot = snapshot
          and host = host and securityOnly = securityOnly and st = st]
  by (auto simp: update_settled_not_rejected)


lemma cleared_updateMachine:
  "fst (updateMachine env world snapshot host securityOnly st) = Resolved u \<Longrightarrow>
   cleared [host] (machines (snd (updateMachine env world snapshot host securityOnly st)))"
  using updateMachine_unfold [where env = env and world = world and snapshot = snapshot
          and host = host and securityOnly = securityOnly and st = st]
  by (auto simp: cleared_update_settled)

lemma api_log_updateMachine:
  "(case fst (updateMachine env world snapshot host securityOnly st) of
      Pending \<Rightarrow>
        api_log (snd (updateMachine env world snapshot host securityOnly st)) =
          api_log st @ [InstallCalled host securityOnly] \<or>
        (\<exists>L. list_all refresh_call L \<and> L \<noteq> [] \<and>
             api_log (snd (updateMachine env world snapshot host securityOnly st)) =
               api_log st @ InstallCalled host securityOnly # InstallSettled host # L)
    | Rejected e \<Rightarrow> False
    | Resolved u \<Rightarrow>
        (\<exists>L. list_all refresh_call L \<and>
             (L = []) = (\<not> install_succeeded
                (fst (installUpdatesOnHost env (install_dbus world) host True securityOnly))) \<and>
             api_log (snd (updateMachine env world snapshot host securityOnly st)) =
               api_log st @ InstallCalled host securityOnly # InstallSettled host # L
                 @ [FlagsCleared host]))"
proof -
  let ?out = "fst (installUpdatesOnHost env (install_dbus world) host True securityOnly)"
  from updateMachine_unfold [where env = env and world = world and snapshot = snapshot
          and host = host and securityOnly = securityOnly and st = st]
  obtain st3 where
    l: "api_log st3 = api_log st @ [InstallCalled host securityOnly]" and
    u: "updateMachine env world snapshot host securityOnly st =
           update_settled env world snapshot host ?out st3"
    by blast
  from api_log_update_settled [where env = env and world = world and snapshot = snapshot
          and host = host and outcome = ?out and st = st3]
  show ?thesis
    unfolding u l by (auto split: promise.splits)
qed

subsection \<open>Reading the record of calls\<close>








subsection \<open>Frames\<close>





subsection \<open>The loop of updateAll\<close>






subsection \<open>updateAll and updateMachine\<close>



lemma alerts_update_settled_failed:
  assumes "\<not> install_succeeded outcome" and "outcome \<noteq> Pending"
  shows "alerts (snd (update_settled env world snapshot host outcome st)) =
           alerts st @ [(''danger'',
              format env (gettext env ''Failed to update $0: $1'')
                [Some host, failure_message outcome])]"
  using assms
  by (cases outcome) (simp_all add: update_settled_def Let_def pick_def split: option.splits)

lemma alerts_updateMachine_failed:
  assumes "fst (updateMachine env world snapshot host securityOnly st) = Resolved u"
      and "\<not> install_succeeded
             (fst (installUpdatesOnHost env (install_dbus world) host True securityOnly))"
  shows "alerts (snd (updateMachine env world snapshot host securityOnly st)) =
           alerts st @ [(''danger'',
              format env (gettext env ''Failed to update $0: $1'')
                [Some host,
                 failure_message
                   (fst (installUpdatesOnHost env (install_dbus world) host True securityOnly))])]"
proof -
  let ?out = "fst (installUpdatesOnHost env (install_dbus world) host True securityOnly)"
  from updateMachine_unfold [where env = env and world = world and snapshot = snapshot
          and host = host and securityOnly = securityOnly and st = st]
  obtain st3 where
    a: "alerts st3 = alerts st" and
    u: "updateMachine env world snapshot host securityOnly st =
           update_settled env world snapshot host ?out st3"
    by blast
  have np: "?out \<noteq> Pending"
  proof
    assume "?out = Pending"
    with u have "fst (updateMachine env world snapshot host securityOnly st) = Pending"
      by (simp add: update_settled_def)
    with assms(1) show False by simp
  qed
  from alerts_update_settled_failed [OF assms(2) np, of env world snapshot host st3] a u
  show ?thesis by simp
qed

text \<open>
  C4 (as amended). updateMachine never rejects. When it completes, whether the install
  reported success or failure, \<open>updating\<close> is false and \<open>updateProgress\<close> is cleared
  on the machine. The calls it made are the install, then the calls of refreshMachine
  exactly when the install reported success, then the clearing of the flags: after a
  successful install the refresh runs before the flags are cleared, and after a failed
  install no update check is made and one danger alert, carrying the host and the
  error message, is raised. While it has not completed, either the install has not
  returned or the refresh after a successful install has not.
\<close>

theorem install_completion:
  "(case fst (updateMachine env world snapshot host securityOnly st) of
      Pending \<Rightarrow>
        api_log (snd (updateMachine env world snapshot host securityOnly st)) =
          api_log st @ [InstallCalled host securityOnly] \<or>
        (\<exists>L. list_all refresh_call L \<and> L \<noteq> [] \<and>
             api_log (snd (updateMachine env world snapshot host securityOnly st)) =
               api_log st @ InstallCalled host securityOnly # InstallSettled host # L)
    | Rejected e \<Rightarrow> False
    | Resolved u \<Rightarrow>
        cleared [host] (machines (snd (updateMachine env world snapshot host securityOnly st))) \<and>
        (\<exists>L. list_all refresh_call L \<and>
             (L = []) = (\<not> install_succeeded
                (fst (installUpdatesOnHost env (install_dbus world) host True securityOnly))) \<and>
             api_log (snd (updateMachine env world snapshot host securityOnly st)) =
               api_log st @ InstallCalled host securityOnly # InstallSettled host # L
                 @ [FlagsCleared host]) \<and>
        (install_succeeded
           (fst (installUpdatesOnHost env (install_dbus world) host True securityOnly)) \<or>
         alerts (snd (updateMachine env world snapshot host securityOnly st)) =
           alerts st @ [(''danger'',
              format env (gettext env ''Failed to update $0: $1'')
                [Some host,
                 failure_message
                   (fst (installUpdatesOnHost env (install_dbus world) host True
                          securityOnly))])]))"
proof (cases "fst (updateMachine env world snapshot host securityOnly st)")
  case Pending
  with api_log_updateMachine [where env = env and world = world and snapshot = snapshot
          and host = host and securityOnly = securityOnly and st = st]
  show ?thesis by simp
next
  case (Rejected e)
  with updateMachine_not_rejected [of env world snapshot host securityOnly st e]
  show ?thesis by simp
next
  case (Resolved u)
  note log = api_log_updateMachine [where env = env and world = world and snapshot = snapshot
          and host = host and securityOnly = securityOnly and st = st]
  note clr = cleared_updateMachine [OF Resolved]
  note alr = alerts_updateMachine_failed [OF Resolved]
  from Resolved log clr alr show ?thesis by auto
qed

subsection \<open>Runs on the example dashboard\<close>

lemmas example_defs =
  example_world_def example_worlds_def ready_remote_def example_dbus_def example_env_def example_dashboard_def
  example_snapshot_def example_machine_def

lemmas update_defs =
  updateAll_def machinesWithUpdates_def has_pending_updates_def
  updateMachine_def update_settled_def update_succeeded_def success_alerts_def
  installUpdatesOnHost_def open_transaction_def install_failed_def run_progress_def
  refreshMachine_def refresh_updates_def refreshPackageCache_def getUpdatesForHost_def
  dbus_options_def

text \<open>
  C4 as stated fails: when the install ends with an ErrorCode signal, updateMachine
  completes having made no call after the install returned; no update check follows.
\<close>

theorem failed_install_counterexample:
  "fst (updateMachine example_env (example_world [ErrorCode 2 ''no network'']) example_snapshot
       ''10.0.0.5'' False (example_dashboard example_snapshot)) = Resolved () \<and>
   api_log (snd (updateMachine example_env (example_world [ErrorCode 2 ''no network''])
       example_snapshot ''10.0.0.5'' False (example_dashboard example_snapshot))) =
     [InstallCalled ''10.0.0.5'' False, InstallSettled ''10.0.0.5'', FlagsCleared ''10.0.0.5''] \<and>
   alerts (snd (updateMachine example_env (example_world [ErrorCode 2 ''no network''])
       example_snapshot ''10.0.0.5'' False (example_dashboard example_snapshot))) =
     [(''danger'', ''Failed to update $0: $1 / 10.0.0.5 / no network'')]"
  by (simp add: update_defs example_defs example_format_def pick_def Let_def)

text \<open>
  A successful install on a connected machine: cache refresh and update check run,
  then the flags are cleared. A failed install: the flags are cleared and the danger
  alert is raised.
\<close>

theorem install_completion_witness:
  "fst (updateMachine example_env (example_world [Percentage 50, Finished 1]) example_snapshot
       ''10.0.0.5'' False (example_dashboard example_snapshot)) = Resolved () \<and>
   cleared [''10.0.0.5'']
     (machines (snd (updateMachine example_env (example_world [Percentage 50, Finished 1])
        example_snapshot ''10.0.0.5'' False (example_dashboard example_snapshot)))) \<and>
   api_log (snd (updateMachine example_env (example_world [Percentage 50, Finished 1])
       example_snapshot ''10.0.0.5'' False (example_dashboard example_snapshot))) =
     [InstallCalled ''10.0.0.5'' False, InstallSettled ''10.0.0.5'',
      RefreshCache ''10.0.0.5'', GetUpdates ''10.0.0.5'', FlagsCleared ''10.0.0.5''] \<and>
   cleared [''10.0.0.5'']
     (machines (snd (updateMachine example_env (example_world [ErrorCode 2 ''no network''])
        example_snapshot ''10.0.0.5'' False (example_dashboard example_snapshot)))) \<and>
   alerts (snd (updateMachine example_env (example_world [ErrorCode 2 ''no network''])
       example_snapshot ''10.0.0.5'' False (example_dashboard example_snapshot))) =
     [(''danger'', ''Failed to update $0: $1 / 10.0.0.5 / no network'')]"
proof -
  let ?run = "updateMachine example_env (example_world [Percentage 50, Finished 1])
       example_snapshot ''10.0.0.5'' False (example_dashboard example_snapshot)"
  let ?bad = "updateMachine example_env (example_world [ErrorCode 2 ''no network''])
       example_snapshot ''10.0.0.5'' False (example_dashboard example_snapshot)"
  have r: "fst ?run = Resolved ()"
    by (simp add: update_defs example_defs Let_def)
  have l: "api_log (snd ?run) =
     [InstallCalled ''10.0.0.5'' False, InstallSettled ''10.0.0.5'',
      RefreshCache ''10.0.0.5'', GetUpdates ''10.0.0.5'', FlagsCleared ''10.0.0.5'']"
    by (simp add: update_defs example_defs Let_def)
  from install_completion [where env = example_env
         and world = "example_world [Percentage 50, Finished 1]"
         and snapshot = example_snapshot and host = "''10.0.0.5''" and securityOnly = False
         and st = "example_dashboard example_snapshot"] r
  have c: "cleared [''10.0.0.5''] (machines (snd ?run))" by simp
  have rb: "fst ?bad = Resolved ()"
    by (simp add: update_defs example_defs Let_def)
  have ib: "fst (installUpdatesOnHost example_env
                   (install_dbus (example_world [ErrorCode 2 ''no network'']))
                   ''10.0.0.5'' True False) =
            Resolved \<lparr> success = False, install_error = Some ''no network'',
                        rebootRequired = None \<rparr>"
    by (simp add: update_defs example_defs Let_def)
  have ab: "alerts (example_dashboard example_snapshot) = []"
    by (simp add: example_dashboard_def)
  from install_completion [where env = example_env
         and world = "example_world [ErrorCode 2 ''no network'']"
         and snapshot = example_snapshot and host = "''10.0.0.5''" and securityOnly = False
         and st = "example_dashboard example_snapshot"] rb ib ab
  have b: "cleared [''10.0.0.5''] (machines (snd ?bad)) \<and>
           alerts (snd ?bad) = [(''danger'', ''Failed to update $0: $1 / 10.0.0.5 / no network'')]"
    by (simp add: example_env_def example_format_def)
  from r c l b show ?thesis by simp
qed


end
